theory Spec2Isabelle
  imports Complex_Main "HOL-Library.Multiset"
begin

section \<open>JavaScript strings and values\<close>

text \<open>
  Strings are modelled as \<^typ>\<open>string\<close>. \<open>toLowerCase\<close> and \<open>trim\<close> are the ASCII
  fragments of the JavaScript methods: upper-case letters \<open>A\<close>..\<open>Z\<close> are mapped to
  lower case, and the characters removed by \<open>trim\<close> are space, tab, line feed,
  vertical tab, form feed and carriage return.
\<close>

definition lower_char :: "char \<Rightarrow> char" where
  "lower_char c =
     (if 65 \<le> (of_char c :: int) \<and> (of_char c :: int) \<le> 90
      then char_of ((of_char c :: int) + 32) else c)"

definition toLowerCase :: "string \<Rightarrow> string" where
  "toLowerCase s = map lower_char s"

fun startsWith :: "string \<Rightarrow> string \<Rightarrow> bool" where
  "startsWith s [] = True"
| "startsWith [] (p # ps) = False"
| "startsWith (c # cs) (p # ps) = (c = p \<and> startsWith cs ps)"

definition endsWith :: "string \<Rightarrow> string \<Rightarrow> bool" where
  "endsWith s p = (length p \<le> length s \<and> drop (length s - length p) s = p)"

text \<open>\<open>s.includes(sub)\<close>: \<open>sub\<close> occurs in \<open>s\<close> as a contiguous substring.\<close>

fun str_includes :: "string \<Rightarrow> string \<Rightarrow> bool" where
  "str_includes [] sub = (sub = [])"
| "str_includes (c # cs) sub = (startsWith (c # cs) sub \<or> str_includes cs sub)"

text \<open>\<open>words.some((w) => s.includes(w))\<close>, also the test of a regular expression that is
  an alternation of literals.\<close>

definition includes_any :: "string \<Rightarrow> string list \<Rightarrow> bool" where
  "includes_any s ws = list_ex (str_includes s) ws"

definition is_space :: "char \<Rightarrow> bool" where
  "is_space c = ((of_char c :: int) \<in> {32, 9, 10, 11, 12, 13})"

definition trim :: "string \<Rightarrow> string" where
  "trim s = rev (dropWhile is_space (rev (dropWhile is_space s)))"

text \<open>\<open>x || ""\<close> for an optional string field: a missing field reads as the empty
  string.\<close>

definition or_empty :: "string option \<Rightarrow> string" where
  "or_empty x = (case x of None \<Rightarrow> [] | Some s \<Rightarrow> s)"

text \<open>Truthiness of an optional string: missing and empty are falsy.\<close>

definition truthy :: "string option \<Rightarrow> bool" where
  "truthy x = (case x of None \<Rightarrow> False | Some s \<Rightarrow> s \<noteq> [])"

text \<open>\<open>Array.from(new Set(xs))\<close>: duplicates removed, first occurrences kept in order.\<close>

fun set_add :: "'a list \<Rightarrow> 'a \<Rightarrow> 'a list" where
  "set_add ks k = (if k \<in> set ks then ks else ks @ [k])"

definition from_set :: "'a list \<Rightarrow> 'a list" where
  "from_set xs = foldl set_add [] xs"

section \<open>Scope and intent helpers\<close>

text \<open>\<open>keywordScore\<close>: the number of keywords that occur in the text.\<close>

definition keywordScore :: "string \<Rightarrow> string list \<Rightarrow> nat" where
  "keywordScore text keywords = length (filter (str_includes text) keywords)"

text \<open>The \<open>topicCandidates\<close> set of \<open>inferScopeFromQuestion\<close>, in insertion order.\<close>

definition topicCandidates :: "string list \<Rightarrow> string list" where
  "topicCandidates flags =
     (if ''prevention_and_ltbi'' \<in> set flags \<or> ''infection_prevention_and_control'' \<in> set flags
      then [''prevention''] else [])
     @ (if ''screening'' \<in> set flags then [''screening''] else [])
     @ (if ''diagnostic_workup'' \<in> set flags then [''diagnosis''] else [])
     @ (if ''regimen_selection'' \<in> set flags \<or> ''regimen_modification'' \<in> set flags
           \<or> ''toxicity_management'' \<in> set flags \<or> ''monitoring_schedule'' \<in> set flags
           \<or> ''treatment_failure_or_reversion'' \<in> set flags
        then [''treatment''] else [])"

definition topicPriority :: "string list" where
  "topicPriority = [''treatment'', ''diagnosis'', ''prevention'', ''screening'']"

definition prevention_keywords :: "string list" where
  "prevention_keywords =
     [''prevention'', ''tb infection'', ''latent tb'', ''tpt'', ''preventive treatment'',
      ''contact management'', ''household contacts'']"

definition screening_keywords :: "string list" where
  "screening_keywords =
     [''screening'', ''systematic screening'', ''triage'', ''ai-assisted'', ''cxr screening'',
      ''screen for tb'']"

definition diagnosis_keywords :: "string list" where
  "diagnosis_keywords =
     [''diagnos'', ''algorithm'', ''cxr'', ''x-ray'', ''radiograph'', ''xpert'', ''naat'',
      ''truenat'', ''lamp'', ''wrd'', ''wrds'', ''lpa'', ''smear'', ''ultra'']"

definition treatment_keywords :: "string list" where
  "treatment_keywords =
     [''treatment'', ''regimen'', ''therapy'', ''dosing'', ''dose'', ''4-month'', ''6-month'',
      ''bpal'', ''bdq'', ''pretomanid'', ''linezolid'', ''dr-tb'', ''drug-resistant'']"

text \<open>The keyword fallback of \<open>inferScopeFromQuestion\<close>, reached when no flag gives a
  topic candidate; \<open>q\<close> is the lower-cased question.\<close>

definition keywordScope :: "string \<Rightarrow> string option" where
  "keywordScope q =
     (if q = [] then None
      else if keywordScore q prevention_keywords \<ge> 2 \<or> str_includes q ''module 1''
        then Some ''prevention''
      else if keywordScore q screening_keywords \<ge> 2
              \<or> (keywordScore q screening_keywords \<noteq> 0 \<and> str_includes q ''module 2'')
        then Some ''screening''
      else if keywordScore q diagnosis_keywords \<ge> 2
              \<or> (keywordScore q diagnosis_keywords \<noteq> 0 \<and> str_includes q ''module 3'')
        then Some ''diagnosis''
      else if keywordScore q treatment_keywords \<ge> 2 \<or> str_includes q ''module 4''
        then Some ''treatment''
      else None)"

definition inferScopeFromQuestion :: "string \<Rightarrow> string list \<Rightarrow> string option" where
  "inferScopeFromQuestion question intentFlags =
     (case find (\<lambda>t. t \<in> set (topicCandidates intentFlags)) topicPriority of
        Some t \<Rightarrow> Some t
      | None \<Rightarrow> keywordScope (toLowerCase question))"

text \<open>\<open>inferIntentFlags\<close>: one flag per keyword group that has a phrase in the
  lower-cased question.\<close>

definition intent_groups :: "(string list \<times> string list) list" where
  "intent_groups =
   [([''screening'', ''systematic screening'', ''triage'', ''ai-assisted'', ''ai assisted'',
      ''cxr screening'', ''screen for tb''], [''screening'']),
    ([''diagnos'', ''algorithm'', ''cxr'', ''x-ray'', ''xray'', ''radiograph'', ''xpert'',
      ''ultra'', ''naat'', ''truenat'', ''lamp'', ''wrd'', ''wrds'', ''lpa'', ''smear'',
      ''culture'', ''dst'', ''drug susceptibility''], [''diagnostic_workup'']),
    ([''tpt'', ''preventive treatment'', ''tb preventive treatment'', ''tb infection'',
      ''latent tb'', ''ltbi'', ''isoniazid preventive'', ''inh preventive''],
     [''prevention_and_ltbi'']),
    ([''infection prevention'', ''ipc'', ''airborne infection'', ''ventilation'', ''uvgi'',
      ''n95'', ''respirator'', ''masking'', ''administrative controls'',
      ''environmental controls''], [''infection_prevention_and_control'']),
    ([''start treatment'', ''starting treatment'', ''initial regimen'', ''which regimen'',
      ''what regimen'', ''choose regimen'', ''choice of regimen'', ''regimen choice''],
     [''regimen_selection'']),
    ([''change regimen'', ''switch regimen'', ''modify regimen'', ''regimen modification'',
      ''adjust regimen'', ''add drug'', ''add a drug'', ''remove drug'', ''stop drug'',
      ''substitute'', ''substitution''], [''regimen_modification'']),
    ([''toxicity'', ''adverse event'', ''side effect'', ''peripheral neuropathy'',
      ''neuropathy'', ''optic neuritis'', ''myelosuppression'', ''anaemia'', ''anemia'',
      ''thrombocytopenia'', ''hepatotoxicity'', ''liver toxicity'', ''vomiting'', ''nausea'',
      ''abdominal pain'', ''hyperpigmentation'', ''qt prolongation'', ''qt-prolonging'',
      ''cardiac toxicity''], [''toxicity_management'']),
    ([''monitoring'', ''follow-up'', ''follow up'', ''schedule'', ''how often'',
      ''how frequently'', ''baseline tests'', ''baseline investigations'',
      ''routine monitoring'', ''post-treatment monitoring''], [''monitoring_schedule'']),
    ([''treatment failure'', ''failed treatment'', ''failure of treatment'',
      ''culture reversion'', ''remains culture-positive'', ''remains culture positive'',
      ''persistent positive'', ''recurrent tb'', ''relapse''],
     [''treatment_failure_or_reversion'']),
    ([''pregnant'', ''pregnancy'', ''breastfeeding'', ''lactating'', ''postpartum'', ''child'',
      ''children'', ''paediatric'', ''pediatric'', ''adolescent'', ''infant'', ''neonate''],
     [''special_populations'']),
    ([''mdr-tb'', ''mdr tb'', ''xdr-tb'', ''xdr tb'', ''pre-xdr'', ''pre xdr'', ''rr-tb'',
      ''rr tb'', ''rifampicin-resistant'', ''rifampin-resistant'', ''drug-resistant tb'',
      ''drug resistant tb'', ''fluoroquinolone-resistant'', ''fluoroquinolone resistance''],
     [''drug_resistance'']),
    ([''tpt'', ''tb preventive treatment'', ''tb preventive therapy'', ''preventive treatment'',
      ''preventive therapy'', ''ipt'', ''isoniazid preventive therapy'', ''3hp'', ''1hp'',
      ''3hr'', ''4r'', ''latent tb infection treatment'', ''ltbi treatment'',
      ''tb infection treatment'', ''tb infection therapy''], [''tpt'']),
    ([''levofloxacin preventive'', ''levofloxacin prophylaxis'', ''6lfx'',
      ''6 months of levofloxacin'', ''mdr-tb contact'', ''mdr tb contact'', ''rr-tb contact'',
      ''rr tb contact'', ''contact of mdr-tb'', ''household contact of mdr-tb''],
     [''dr_tpt'', ''tpt'']),
    ([''hiv'', ''plhiv'', ''cd4'', ''viral load'', ''diabetes'', ''diabetic'', ''renal failure'',
      ''kidney disease'', ''ckd'', ''cirrhosis'', ''liver disease'', ''alcohol use'',
      ''harmful use'', ''substance use'', ''drug use'', ''depression'', ''anxiety'',
      ''mental health'', ''hepatitis'', ''hbv'', ''hcv''], [''comorbidities''])]"

definition inferIntentFlags :: "string \<Rightarrow> string list" where
  "inferIntentFlags question =
     (let q = toLowerCase question in
      if q = [] then []
      else from_set (concat (map (\<lambda>(ws, fs). if includes_any q ws then fs else [])
                                 intent_groups)))"

section \<open>Corpus data model\<close>

text \<open>
  A chunk is one JSON record of the corpus manifest. Every field the engine reads is an
  optional string (\<open>None\<close>: the field is missing). The table fields are the ones that
  \<open>enrichChunkWithTable\<close> adds; a record of the manifest may carry \<open>table_subtype\<close>
  already, and the ranking reads it from there. Table rows are objects whose cells are
  strings, \<open>None\<close> for an undefined cell; the order of the pairs is the order of
  \<open>Object.keys\<close>.
\<close>

type_synonym obj = "(string \<times> string option) list"

record table_debug =
  renderer :: "string option"
  header_keys :: "string list"
  row_count :: nat
  dbg_note :: "string option"
  med_key :: "string option"
  weight_band_keys :: "string list option"

record chunk =
  chunk_id :: "string option"
  doc_id :: "string option"
  section_path :: "string option"
  scope :: "string option"
  content_type :: "string option"
  chunk_text :: "string option"
  caption :: "string option"
  attachment_path :: "string option"
  table_subtype :: "string option"
  table_text :: "string option"
  table_rows :: "obj list option"
  table_row_count :: "nat option"
  table_dbg :: "table_debug option"

definition empty_chunk :: chunk where
  "empty_chunk = \<lparr>chunk_id = None, doc_id = None, section_path = None, scope = None,
     content_type = None, chunk_text = None, caption = None, attachment_path = None,
     table_subtype = None, table_text = None, table_rows = None, table_row_count = None,
     table_dbg = None\<rparr>"

text \<open>\<open>chunks[i] || {}\<close>: an index outside the array reads as the empty object.\<close>

definition chunk_at :: "chunk list \<Rightarrow> nat \<Rightarrow> chunk" where
  "chunk_at chunks i = (if i < length chunks then chunks ! i else empty_chunk)"

definition doc_lc :: "chunk \<Rightarrow> string" where
  "doc_lc c = toLowerCase (or_empty (doc_id c))"

definition section_lc :: "chunk \<Rightarrow> string" where
  "section_lc c = toLowerCase (or_empty (section_path c))"

definition ct_lc :: "chunk \<Rightarrow> string" where
  "ct_lc c = toLowerCase (or_empty (content_type c))"

text \<open>A scored candidate \<open>{index, score}\<close>. Scores are real numbers here; the rounding
  of the double-precision arithmetic of the source is not modelled.\<close>

record scored =
  index :: nat
  score :: real

text \<open>\<open>xs.sort((a, b) => b.score - a.score)\<close>: a stable sort, highest score first.\<close>

definition sort_desc :: "scored list \<Rightarrow> scored list" where
  "sort_desc xs = sort_key (\<lambda>e. - score e) xs"

text \<open>\<open>cosineSim\<close>: the dot product over the shared prefix of the two vectors.\<close>

definition cosineSim :: "real list \<Rightarrow> real list \<Rightarrow> real" where
  "cosineSim a b = sum_list (map (\<lambda>(x, y). x * y) (zip a b))"

section \<open>Scope filter\<close>

definition isDrugSusceptibleChunk :: "chunk \<Rightarrow> bool" where
  "isDrugSusceptibleChunk c =
     (let dsSignals = [''drug - susceptible'', ''drug-susceptible'', ''drug susceptible'',
                       ''ds-tb'', ''ds tb''] in
      if includes_any (toLowerCase (or_empty (scope c))) dsSignals then True
      else if includes_any (section_lc c) dsSignals then True
      else if includes_any (toLowerCase (or_empty (chunk_text c))) dsSignals then True
      else str_includes (doc_lc c) ''module4'' \<and> str_includes (doc_lc c) ''treat''
           \<and> str_includes (section_lc c) ''chapter 1'')"

text \<open>The predicate of the \<open>filter\<close> in \<open>filterIndicesByScope\<close>; \<open>s\<close> is the
  lower-cased requested scope.\<close>

definition scopeMatches :: "string \<Rightarrow> chunk \<Rightarrow> bool" where
  "scopeMatches s c =
     (let docId = doc_lc c; section = section_lc c;
          chunkScope = toLowerCase (or_empty (scope c)) in
      if chunkScope \<noteq> [] then chunkScope = s
      else if s = ''prevention'' then
        includes_any section [''prevention'', ''tb infection'', ''tpt'', ''preventive treatment'',
                              ''contact management'', ''latent tb'']
        \<or> str_includes docId ''module1''
      else if s = ''screening'' then
        includes_any section [''screening'', ''systematic screening'', ''triage'',
                              ''ai-assisted'', ''cxr screening'']
        \<or> str_includes docId ''module2''
      else if s = ''diagnosis'' then
        str_includes docId ''diag'' \<or> str_includes docId ''module3''
        \<or> includes_any section [''diagnos'', ''xpert'', ''cxr'', ''smear'', ''naat'']
      else if s = ''treatment'' then
        str_includes docId ''treat'' \<or> str_includes docId ''module4''
        \<or> includes_any section [''treatment'', ''regimen'', ''drug-resistant tb'', ''dr-tb'',
                                 ''mdr-tb'', ''rifampicin-resistant'']
      else if s = ''pediatrics'' then
        str_includes docId ''pediatric'' \<or> str_includes docId ''child''
        \<or> str_includes docId ''module5''
        \<or> includes_any section [''child'', ''children'', ''adolescent'', ''paediatric'',
                                 ''pediatric'']
      else if s = ''comorbidities'' then
        str_includes docId ''module6''
        \<or> includes_any section [''hiv'', ''diabetes'', ''comorbid'', ''substance use'',
                                 ''alcohol use'', ''mental health'', ''hepatitis'', ''hcv'']
      else True)"

definition filterIndicesByScope :: "nat list \<Rightarrow> chunk list \<Rightarrow> string option \<Rightarrow> nat list" where
  "filterIndicesByScope indices chunks sc =
     (if \<not> truthy sc then indices
      else filter (\<lambda>i. scopeMatches (toLowerCase (or_empty sc)) (chunk_at chunks i)) indices)"

text \<open>The scope fallback of the handler: an empty filtered set is replaced by the full
  index set.\<close>

definition scopedIndices :: "nat list \<Rightarrow> chunk list \<Rightarrow> string option \<Rightarrow> nat list" where
  "scopedIndices fullIndices chunks sc =
     (if filterIndicesByScope fullIndices chunks sc = [] then fullIndices
      else filterIndicesByScope fullIndices chunks sc)"

section \<open>Section keys\<close>

definition is_digit :: "char \<Rightarrow> bool" where
  "is_digit c = (48 \<le> (of_char c :: int) \<and> (of_char c :: int) \<le> 57)"

text \<open>A word character of a regular expression: \<open>[A-Za-z0-9_]\<close>.\<close>

definition is_word :: "char \<Rightarrow> bool" where
  "is_word c = (is_digit c \<or> (65 \<le> (of_char c :: int) \<and> (of_char c :: int) \<le> 90)
                \<or> (97 \<le> (of_char c :: int) \<and> (of_char c :: int) \<le> 122)
                \<or> (of_char c :: int) = 95)"

text \<open>\<open>s.split(d)\<close> for a one-character separator.\<close>

fun split_on :: "char \<Rightarrow> string \<Rightarrow> string list" where
  "split_on d [] = [[]]"
| "split_on d (c # cs) =
     (if c = d then [] # split_on d cs
      else (case split_on d cs of [] \<Rightarrow> [[c]] | x # xs \<Rightarrow> (c # x) # xs))"

text \<open>
  The matches of \<open>/\b\d+(?:\.\d+)*\b/g\<close>. \<open>dot_groups\<close> takes the repetitions of
  \<open>\.\d+\<close> greedily. \<open>match_number\<close> is the match that starts at the head of its
  argument, a digit with a word boundary before it: the greedy match if a word boundary
  follows it, else the match without its last repetition (which ends before a dot, a
  word boundary), else none.
\<close>

function dot_groups :: "string \<Rightarrow> string list" where
  "dot_groups [] = []"
| "dot_groups (c # r) =
     (if c = CHR ''.'' \<and> r \<noteq> [] \<and> is_digit (hd r)
      then (c # takeWhile is_digit r) # dot_groups (dropWhile is_digit r) else [])"
  by pat_completeness auto
termination
  by (relation "measure length") (auto simp: le_imp_less_Suc length_dropWhile_le)

definition boundary_before :: "string \<Rightarrow> bool" where
  "boundary_before s = (case s of [] \<Rightarrow> True | c # _ \<Rightarrow> \<not> is_word c)"

definition match_number :: "string \<Rightarrow> string option" where
  "match_number s =
     (let d = takeWhile is_digit s;
          gs = dot_groups (dropWhile is_digit s);
          full = d @ concat gs in
      if boundary_before (drop (length full) s) then Some full
      else if gs \<noteq> [] then Some (d @ concat (butlast gs))
      else None)"

text \<open>The scan of the global match: \<open>pw\<close> tells whether the previous character is a
  word character, \<open>skip\<close> counts the characters left of the current match.\<close>

fun num_matches :: "bool \<Rightarrow> nat \<Rightarrow> string \<Rightarrow> string list" where
  "num_matches pw skip [] = []"
| "num_matches pw skip (c # cs) =
     (if skip > 0 then num_matches (is_word c) (skip - 1) cs
      else if is_digit c \<and> \<not> pw then
        (case match_number (c # cs) of
           Some m \<Rightarrow> m # num_matches (is_word c) (length m - 1) cs
         | None \<Rightarrow> num_matches (is_word c) 0 cs)
      else num_matches (is_word c) 0 cs)"

definition extractSectionKeys :: "string \<Rightarrow> string list" where
  "extractSectionKeys sectionPath =
     (if sectionPath = [] then []
      else let s = toLowerCase sectionPath in
        from_set ([trim s]
                  @ filter (\<lambda>seg. seg \<noteq> []) (map trim (split_on CHR ''|'' s))
                  @ num_matches False 0 s))"

section \<open>Boost and penalty cascade\<close>

definition isPediatric :: "string list \<Rightarrow> bool" where
  "isPediatric intentFlags = (''special_populations'' \<in> set intentFlags)"

definition hasDrugResistanceIntent :: "string list \<Rightarrow> bool" where
  "hasDrugResistanceIntent intentFlags = (''drug_resistance'' \<in> set intentFlags)"

definition hasTptIntent :: "string list \<Rightarrow> bool" where
  "hasTptIntent intentFlags = (''tpt'' \<in> set intentFlags)"

definition isTreatmentScope :: "string option \<Rightarrow> bool" where
  "isTreatmentScope sc = (sc = Some ''treatment'')"

definition isDiagnosisScope :: "string option \<Rightarrow> bool" where
  "isDiagnosisScope sc = (sc = Some ''diagnosis'')"

definition isPreventionScope :: "string option \<Rightarrow> bool" where
  "isPreventionScope sc = (sc = Some ''prevention'')"

text \<open>The document tests of the authority boosts: the 2025 treatment module
  (Module 4) and the 2024 preventive-treatment module (Module 1).\<close>

definition isModule4Treatment2025 :: "chunk \<Rightarrow> bool" where
  "isModule4Treatment2025 c =
     (str_includes (doc_lc c) ''module4'' \<and> str_includes (doc_lc c) ''treatment''
      \<and> str_includes (doc_lc c) ''2025'')"

definition isModule1Tpt2024 :: "chunk \<Rightarrow> bool" where
  "isModule1Tpt2024 c =
     (str_includes (doc_lc c) ''module1'' \<and> str_includes (doc_lc c) ''tpt''
      \<and> str_includes (doc_lc c) ''2024'')"

text \<open>\<open>if (b) entry.score *= k\<close>.\<close>

definition times_if :: "bool \<Rightarrow> real \<Rightarrow> real \<Rightarrow> real" where
  "times_if b k x = (if b then x * k else x)"

text \<open>The body of the first loop over \<open>scoredText\<close>, as a function of the chunk and
  the score of the entry.\<close>

definition boostTextScore :: "string option \<Rightarrow> string list \<Rightarrow> chunk \<Rightarrow> real \<Rightarrow> real" where
  "boostTextScore sc fl c x =
     (let doc = doc_lc c; section = section_lc c;
          x1 = times_if (isTreatmentScope sc \<and> isModule4Treatment2025 c) 1.03 x;
          x2 = times_if (isTreatmentScope sc \<and> isPediatric fl \<and> \<not> hasDrugResistanceIntent fl
                         \<and> str_includes doc ''module5'' \<and> str_includes doc ''pediatr''
                         \<and> (str_includes section ''5.2.''
                              \<or> str_includes section ''treatment of drug-susceptible tb in children''))
                 1.03 x1;
          x3 = times_if (isDiagnosisScope sc \<and> isPediatric fl \<and> str_includes doc ''module3''
                         \<and> (str_includes doc ''diag'' \<or> str_includes section ''diagnosis''))
                 1.03 x2;
          x4 = times_if (isPreventionScope sc \<and> isModule1Tpt2024 c) 1.03 x3
      in times_if (hasDrugResistanceIntent fl \<and> isDrugSusceptibleChunk c) 0.6 x4)"

text \<open>The body of the loop over \<open>scoredTables\<close>: the pediatric rule tests the section
  number only.\<close>

definition boostTableScore :: "string option \<Rightarrow> string list \<Rightarrow> chunk \<Rightarrow> real \<Rightarrow> real" where
  "boostTableScore sc fl c x =
     (let doc = doc_lc c; section = section_lc c;
          x1 = times_if (isTreatmentScope sc \<and> isModule4Treatment2025 c) 1.03 x;
          x2 = times_if (isTreatmentScope sc \<and> isPediatric fl \<and> \<not> hasDrugResistanceIntent fl
                         \<and> str_includes doc ''module5'' \<and> str_includes doc ''pediatr''
                         \<and> str_includes section ''5.2.'') 1.03 x1;
          x3 = times_if (isDiagnosisScope sc \<and> isPediatric fl \<and> str_includes doc ''module3''
                         \<and> (str_includes doc ''diag'' \<or> str_includes section ''diagnosis''))
                 1.03 x2;
          x4 = times_if (isPreventionScope sc \<and> isModule1Tpt2024 c) 1.03 x3
      in times_if (hasDrugResistanceIntent fl \<and> isDrugSusceptibleChunk c) 0.6 x4)"

definition moduleBoosts ::
  "(chunk \<Rightarrow> real \<Rightarrow> real) \<Rightarrow> chunk list \<Rightarrow> scored list \<Rightarrow> scored list" where
  "moduleBoosts boost chunks entries =
     sort_desc (map (\<lambda>e. e\<lparr>score := boost (chunk_at chunks (index e)) (score e)\<rparr>) entries)"

subsection \<open>Section proximity\<close>

record anchor =
  a_index :: nat
  a_score :: real
  a_doc_id :: "string option"
  a_section_path :: string
  a_content_type :: string
  sectionKeys :: "string list"

text \<open>\<open>x || null\<close> for an optional string field.\<close>

definition or_null :: "string option \<Rightarrow> string option" where
  "or_null x = (if truthy x then x else None)"

definition mkAnchor :: "chunk list \<Rightarrow> scored \<Rightarrow> anchor" where
  "mkAnchor chunks e =
     (let c = chunk_at chunks (index e) in
      \<lparr>a_index = index e, a_score = score e, a_doc_id = or_null (doc_id c),
       a_section_path = or_empty (section_path c), a_content_type = ct_lc c,
       sectionKeys = extractSectionKeys (or_empty (section_path c))\<rparr>)"

definition anchors :: "chunk list \<Rightarrow> scored list \<Rightarrow> anchor list" where
  "anchors chunks scoredText =
     map (mkAnchor chunks) (take (min 10 (length scoredText)) scoredText)"

text \<open>The anchors that have a document id.\<close>

definition anchorDocSectionMap :: "chunk list \<Rightarrow> scored list \<Rightarrow> anchor list" where
  "anchorDocSectionMap chunks scoredText =
     filter (\<lambda>a. a_doc_id a \<noteq> None) (anchors chunks scoredText)"

definition hasModule4DrAnchor :: "chunk list \<Rightarrow> scored list \<Rightarrow> bool" where
  "hasModule4DrAnchor chunks scoredText =
     list_ex (\<lambda>a. str_includes (toLowerCase (or_empty (a_doc_id a))) ''module4''
                 \<and> str_includes (toLowerCase (or_empty (a_doc_id a))) ''treatment''
                 \<and> str_includes (toLowerCase (a_section_path a))
                      ''chapter 2 : drug-resistant tb treatment'')
       (anchorDocSectionMap chunks scoredText)"

definition hasModule1TptAnchor :: "chunk list \<Rightarrow> scored list \<Rightarrow> bool" where
  "hasModule1TptAnchor chunks scoredText =
     list_ex (\<lambda>a. str_includes (toLowerCase (or_empty (a_doc_id a))) ''module1''
                 \<and> str_includes (toLowerCase (or_empty (a_doc_id a))) ''tpt''
                 \<and> str_includes (toLowerCase (a_section_path a)) ''tb preventive treatment'')
       (anchorDocSectionMap chunks scoredText)"

definition maxTextScore :: "scored list \<Rightarrow> real" where
  "maxTextScore scoredText = (case scoredText of [] \<Rightarrow> 1 | e # _ \<Rightarrow> score e)"

definition isNeighbor :: "anchor list \<Rightarrow> chunk \<Rightarrow> bool" where
  "isNeighbor amap c =
     list_ex (\<lambda>a. a_doc_id a = or_null (doc_id c)
                 \<and> list_ex (\<lambda>key. key \<in> set (extractSectionKeys (or_empty (section_path c))))
                      (sectionKeys a)) amap"

definition proximityEntry :: "chunk list \<Rightarrow> scored list \<Rightarrow> scored \<Rightarrow> scored" where
  "proximityEntry chunks scoredText e =
     (let c = chunk_at chunks (index e) in
      if or_null (doc_id c) = None then e
      else if \<not> isNeighbor (anchorDocSectionMap chunks scoredText) c then e
      else e\<lparr>score := max (score e) (maxTextScore scoredText * 0.98)\<rparr>)"

definition proximityBoost :: "chunk list \<Rightarrow> scored list \<Rightarrow> scored list \<Rightarrow> scored list" where
  "proximityBoost chunks scoredText scoredTables =
     sort_desc (map (proximityEntry chunks scoredText) scoredTables)"

text \<open>The condition of the section-proximity rule in the words of the specification:
  the chunk has a document id, and one of the first ten prose candidates has the same
  document id and a section key in common with it.\<close>

definition sharesAnchorSpec :: "chunk list \<Rightarrow> scored list \<Rightarrow> chunk \<Rightarrow> bool" where
  "sharesAnchorSpec cs scoredText c =
     (\<exists>a \<in> set (take 10 scoredText).
        truthy (doc_id c) \<and> doc_id (chunk_at cs (index a)) = doc_id c
        \<and> set (extractSectionKeys (or_empty (section_path (chunk_at cs (index a)))))
            \<inter> set (extractSectionKeys (or_empty (section_path c))) \<noteq> {})"

subsection \<open>Stale-content penalties\<close>

text \<open>The tests of the two penalty loops on the chunk of a table entry. The subtype is
  read from the \<open>table_subtype\<close> field of the stored chunk.\<close>

definition isPedsRegimenTable :: "chunk \<Rightarrow> bool" where
  "isPedsRegimenTable c =
     (str_includes (doc_lc c) ''module5'' \<and> str_includes (doc_lc c) ''pediatr''
      \<and> ct_lc c = ''table''
      \<and> (toLowerCase (or_empty (table_subtype c)) = ''regimen''
           \<or> toLowerCase (or_empty (table_subtype c)) = ''decision''))"

definition isPedsTptTable :: "chunk \<Rightarrow> bool" where
  "isPedsTptTable c =
     (isPedsRegimenTable c
      \<and> (str_includes (section_lc c) ''3.3.5'' \<or> str_includes (section_lc c) ''3.3.6''
           \<or> str_includes (section_lc c) ''preventive treatment''))"

definition penalize :: "(chunk \<Rightarrow> bool) \<Rightarrow> chunk list \<Rightarrow> scored list \<Rightarrow> scored list" where
  "penalize p chunks scoredTables =
     sort_desc (map (\<lambda>e. if p (chunk_at chunks (index e)) then e\<lparr>score := score e * 0.97\<rparr> else e)
                    scoredTables)"

definition stalePenaltyTreatment ::
  "string option \<Rightarrow> string list \<Rightarrow> chunk list \<Rightarrow> scored list \<Rightarrow> scored list \<Rightarrow> scored list" where
  "stalePenaltyTreatment sc fl chunks scoredText scoredTables =
     (if isTreatmentScope sc \<and> isPediatric fl \<and> hasDrugResistanceIntent fl
         \<and> hasModule4DrAnchor chunks scoredText
      then penalize isPedsRegimenTable chunks scoredTables else scoredTables)"

definition stalePenaltyPrevention ::
  "string option \<Rightarrow> string list \<Rightarrow> chunk list \<Rightarrow> scored list \<Rightarrow> scored list \<Rightarrow> scored list" where
  "stalePenaltyPrevention sc fl chunks scoredText scoredTables =
     (if isPreventionScope sc \<and> hasTptIntent fl \<and> hasModule1TptAnchor chunks scoredText
      then penalize isPedsTptTable chunks scoredTables else scoredTables)"

section \<open>Channel merge, guaranteed inclusion and deduplication\<close>

definition TEXT_LIMIT :: nat where
  "TEXT_LIMIT = 20"

definition TABLE_LIMIT :: nat where
  "TABLE_LIMIT = 8"

definition mergeChannels :: "scored list \<Rightarrow> scored list \<Rightarrow> scored list" where
  "mergeChannels scoredText scoredTables =
     sort_desc (take (min TEXT_LIMIT (length scoredText)) scoredText
                @ take (min TABLE_LIMIT (length scoredTables)) scoredTables)"

text \<open>The candidate filters of the two guarantee blocks.\<close>

definition isModule4DrChunk :: "chunk \<Rightarrow> bool" where
  "isModule4DrChunk c =
     (str_includes (doc_lc c) ''module4'' \<and> str_includes (doc_lc c) ''treatment''
      \<and> str_includes (section_lc c) ''chapter 2 : drug-resistant tb treatment'')"

definition isModule1TptChunk :: "chunk \<Rightarrow> bool" where
  "isModule1TptChunk c =
     (str_includes (doc_lc c) ''module1'' \<and> str_includes (doc_lc c) ''tpt''
      \<and> str_includes (doc_lc c) ''2024''
      \<and> (str_includes (section_lc c) ''tb preventive treatment''
           \<or> str_includes (section_lc c) ''tb infection''))"

text \<open>The loop \<open>for (const cand of candidates)\<close> with its counter \<open>needed\<close>: a
  candidate whose index is not yet in \<open>combined\<close> is pushed.\<close>

fun forceLoop :: "nat \<Rightarrow> scored list \<Rightarrow> scored list \<Rightarrow> scored list" where
  "forceLoop needed [] combined = combined"
| "forceLoop needed (cand # cands) combined =
     (if needed = 0 then combined
      else if list_ex (\<lambda>e. index e = index cand) combined then forceLoop needed cands combined
      else forceLoop (needed - 1) cands (combined @ [cand]))"

definition forceInclude ::
  "(chunk \<Rightarrow> bool) \<Rightarrow> chunk list \<Rightarrow> scored list \<Rightarrow> scored list \<Rightarrow> scored list" where
  "forceInclude p chunks scoredText combined =
     sort_desc (forceLoop 2 (filter (\<lambda>e. p (chunk_at chunks (index e))) scoredText) combined)"

definition forceIncludeModule4 ::
  "string option \<Rightarrow> string list \<Rightarrow> chunk list \<Rightarrow> scored list \<Rightarrow> scored list \<Rightarrow> scored list" where
  "forceIncludeModule4 sc fl chunks scoredText combined =
     (if isTreatmentScope sc \<and> isPediatric fl \<and> hasDrugResistanceIntent fl
      then forceInclude isModule4DrChunk chunks scoredText combined else combined)"

definition forceIncludeModule1 ::
  "string option \<Rightarrow> string list \<Rightarrow> chunk list \<Rightarrow> scored list \<Rightarrow> scored list \<Rightarrow> scored list" where
  "forceIncludeModule1 sc fl chunks scoredText combined =
     (if isPreventionScope sc \<and> hasTptIntent fl
      then forceInclude isModule1TptChunk chunks scoredText combined else combined)"

text \<open>The deduplication loop; \<open>seen\<close> is the set of chunk ids kept so far.\<close>

fun dedup :: "chunk list \<Rightarrow> string list \<Rightarrow> scored list \<Rightarrow> scored list" where
  "dedup chunks seen [] = []"
| "dedup chunks seen (e # es) =
     (case chunk_id (chunk_at chunks (index e)) of
        None \<Rightarrow> dedup chunks seen es
      | Some i \<Rightarrow>
          if i = [] \<or> i \<in> set seen then dedup chunks seen es
          else e # dedup chunks (i # seen) es)"

section \<open>Table normalisation, subtype detection and rendering\<close>

text \<open>\<open>row[key]\<close>: a missing key and an undefined cell both read as undefined.\<close>

definition obj_get :: "obj \<Rightarrow> string \<Rightarrow> string option" where
  "obj_get row k = (case map_of row k of None \<Rightarrow> None | Some v \<Rightarrow> v)"

text \<open>\<open>String(v)\<close> for a cell.\<close>

definition js_String :: "string option \<Rightarrow> string" where
  "js_String v = (case v of None \<Rightarrow> ''undefined'' | Some s \<Rightarrow> s)"

fun digits_value :: "string \<Rightarrow> int \<Rightarrow> int" where
  "digits_value [] acc = acc"
| "digits_value (c # cs) acc = digits_value cs (10 * acc + ((of_char c :: int) - 48))"

text \<open>An array index: the canonical decimal form of a number below \<open>2^32 - 1\<close>. The keys
  of an object that are array indices come first in \<open>Object.keys\<close>, in ascending order.\<close>

definition is_array_index :: "string \<Rightarrow> bool" where
  "is_array_index k =
     (k \<noteq> [] \<and> list_all is_digit k \<and> (k = ''0'' \<or> hd k \<noteq> CHR ''0'')
      \<and> length k \<le> 10 \<and> digits_value k 0 < 4294967295)"

fun obj_insert :: "string \<Rightarrow> string option \<Rightarrow> obj \<Rightarrow> obj" where
  "obj_insert k v [] = [(k, v)]"
| "obj_insert k v ((k', v') # rest) =
     (if is_array_index k
         \<and> (\<not> is_array_index k' \<or> digits_value k 0 < digits_value k' 0)
      then (k, v) # (k', v') # rest
      else (k', v') # obj_insert k v rest)"

text \<open>\<open>o[k] = v\<close> for a cell \<open>v\<close>: an existing key keeps its place. The key
  \<open>__proto__\<close> is the prototype setter, which ignores a string or undefined value and
  creates no key.\<close>

definition obj_set :: "obj \<Rightarrow> string \<Rightarrow> string option \<Rightarrow> obj" where
  "obj_set ob k v =
     (if k = ''__proto__'' then ob
      else if k \<in> set (map fst ob) then map (\<lambda>(k', v'). if k' = k then (k', v) else (k', v')) ob
      else obj_insert k v ob)"

text \<open>The test of the column-name pattern: the anchors bind to the first and the last
  alternative only.\<close>

definition isContentColumnName :: "string \<Rightarrow> bool" where
  "isContentColumnName lower =
     (startsWith lower ''columna''
      \<or> includes_any lower
           [''columnb'', ''columnc'', ''columnd'', ''columne'', ''columnf'', ''columng'',
            ''columnh'', ''columni'', ''columnj'', ''columnk'', ''columnl'', ''columnm'',
            ''columnn'', ''columno'', ''columnp'', ''columnq'', ''columnr'', ''columns'',
            ''columnt'', ''columnu'', ''columnv'', ''columnw'', ''columnx'', ''columny'']
      \<or> endsWith lower ''columnz'')"

definition find_header_row :: "obj list \<Rightarrow> obj" where
  "find_header_row rawRows =
     (case find (\<lambda>r. js_String (obj_get r ''row_index'') = ''1'') rawRows of
        Some r \<Rightarrow> r
      | None \<Rightarrow> (case rawRows of [] \<Rightarrow> [] | r # _ \<Rightarrow> r))"

definition contentCols :: "obj \<Rightarrow> string list" where
  "contentCols headerRow =
     filter (\<lambda>k. isContentColumnName (toLowerCase k)
                 \<and> truthy (obj_get headerRow k)
                 \<and> trim (js_String (obj_get headerRow k)) \<noteq> [])
            (map fst headerRow)"

definition logicalRow :: "obj \<Rightarrow> obj \<Rightarrow> obj" where
  "logicalRow headerRow row =
     obj_set
       (foldl (\<lambda>logical col.
                 let headerLabel = trim (or_empty (obj_get headerRow col)) in
                 if headerLabel = [] then logical
                 else obj_set logical headerLabel (obj_get row col))
              [] (contentCols headerRow))
       ''_row_index'' (obj_get row ''row_index'')"

definition normalizeTableRows :: "obj list \<Rightarrow> obj option \<times> obj list" where
  "normalizeTableRows rawRows =
     (if rawRows = [] then (None, [])
      else let headerRow = find_header_row rawRows;
               dataRows = filter (\<lambda>r. js_String (obj_get r ''row_index'')
                                        \<noteq> js_String (obj_get headerRow ''row_index'')) rawRows
           in (Some headerRow, map (logicalRow headerRow) dataRows))"

text \<open>\<open>/if.*then/\<close>: the dot matches every character but a line terminator.\<close>

definition is_line_terminator :: "char \<Rightarrow> bool" where
  "is_line_terminator c = ((of_char c :: int) = 10 \<or> (of_char c :: int) = 13)"

fun if_then :: "string \<Rightarrow> bool" where
  "if_then [] = False"
| "if_then (c # cs) =
     ((startsWith (c # cs) ''if''
        \<and> str_includes (takeWhile (\<lambda>x. \<not> is_line_terminator x) (drop 2 (c # cs))) ''then'')
      \<or> if_then cs)"

definition detectTableSubtype :: "chunk \<Rightarrow> obj list \<Rightarrow> obj option \<Rightarrow> string" where
  "detectTableSubtype c logicalRows headerRow =
     (let cap = toLowerCase (or_empty (caption c));
          section = section_lc c;
          headers = (case logicalRows of [] \<Rightarrow> [] | r # _ \<Rightarrow> map (toLowerCase \<circ> fst) r);
          hasHeader = (\<lambda>pats. list_ex (\<lambda>h. includes_any h pats) headers)
      in
      if includes_any cap [''dose'', ''dosage'', ''dosing'', ''mg/kg'', ''mg/ day'', ''mg per kg'',
                           ''weight band'', ''weight-band'']
         \<or> hasHeader [''kg'', ''dose'', ''weight band'', ''weight-band'']
      then (if includes_any cap [''child'', ''paediatric'', ''pediatric'', ''infant'', ''neonate'']
               \<or> str_includes section ''child''
            then ''peds_dosing'' else ''dosing'')
      else if includes_any cap [''eligib'', ''criteria'', ''decision'', ''indication'', ''when to'',
                                ''option'']
              \<or> if_then cap
              \<or> hasHeader [''criteria'', ''recommendation'', ''option'', ''action'']
        then ''decision''
      else if str_includes cap ''regimen''
              \<or> (hasHeader [''regimen'']
                   \<and> hasHeader [''drug'', ''component'', ''medicine'', ''combination''])
        then ''regimen''
      else if includes_any cap [''monitoring'', ''follow-up'', ''follow up'', ''timeline'',
                                ''schedule'']
              \<or> hasHeader [''baseline'', ''month'', ''week'', ''visit'', ''timepoint'']
        then ''timeline''
      else if includes_any cap [''interaction'', ''drug-drug'', ''drug drug'', ''ddi'', ''qt'',
                                ''contraindication'']
              \<or> hasHeader [''interaction'', ''effect'', ''recommendation'', ''ddi'']
        then ''interaction''
      else if includes_any cap [''toxicity'', ''adverse event'', ''side effect'', ''hepatotox'',
                                ''neuropathy'', ''ae management'']
              \<or> hasHeader [''grade'', ''toxicity'', ''ctcae'']
        then ''toxicity''
      else ''generic'')"

definition nonEmpty :: "string option \<Rightarrow> bool" where
  "nonEmpty val = (case val of None \<Rightarrow> False | Some s \<Rightarrow> trim s \<noteq> [])"

definition getTableHeaders :: "obj list \<Rightarrow> string list" where
  "getTableHeaders logicalRows =
     (case logicalRows of [] \<Rightarrow> []
      | r # _ \<Rightarrow> filter (\<lambda>h. h \<noteq> ''_row_index'') (map fst r))"

text \<open>\<open>xs.join(sep)\<close>.\<close>

fun join :: "string \<Rightarrow> string list \<Rightarrow> string" where
  "join sep [] = []"
| "join sep [x] = x"
| "join sep (x # y # ys) = x @ sep @ join sep (y # ys)"

text \<open>The decimal form of a number in a template string.\<close>

fun show_nat :: "nat \<Rightarrow> string" where
  "show_nat n =
     (if n < 10 then [char_of (48 + n)]
      else show_nat (n div 10) @ [char_of (48 + n mod 10)])"

declare show_nat.simps [simp del]

record rendering =
  text_out :: string
  debug_out :: table_debug

definition renderGenericTable :: "chunk \<Rightarrow> obj list \<Rightarrow> obj option \<Rightarrow> rendering" where
  "renderGenericTable c logicalRows headerRow =
     (let cap = (if truthy (caption c) then or_empty (caption c) else ''Table'');
          headers = getTableHeaders logicalRows;
          dbg = \<lparr>renderer = Some ''generic'', header_keys = headers,
                 row_count = length logicalRows, dbg_note = None, med_key = None,
                 weight_band_keys = None\<rparr>
      in
      if logicalRows = [] \<or> headers = []
      then \<lparr>text_out = cap @ ''. (No rows found.)'', debug_out = dbg\<rparr>
      else \<lparr>text_out =
              join [CHR 0x0A]
                ((cap @ ''. Columns: '' @ join '', '' headers)
                 # map (\<lambda>(row, idx).
                          ''Row '' @ show_nat (idx + 1) @ '': ''
                          @ join ''; '' (map (\<lambda>h. h @ '': '' @ or_empty (obj_get row h)) headers))
                       (zip logicalRows [0 ..< length logicalRows])),
            debug_out = dbg\<rparr>)"

text \<open>The line of one row in the weight-band summary of \<open>renderDosingTable\<close>, if the
  row gives one.\<close>

definition dosingLine :: "string list \<Rightarrow> string \<Rightarrow> string list \<Rightarrow> obj \<Rightarrow> string option" where
  "dosingLine headers medKey weightBandKeys row =
     (if \<not> nonEmpty (obj_get row medKey) then None
      else
        let med = or_empty (obj_get row medKey);
            cellsOf = (\<lambda>ks. map (\<lambda>k. k @ '': '' @ trim (js_String (obj_get row k)))
                              (filter (\<lambda>k. nonEmpty (obj_get row k)) ks));
            bandParts = cellsOf weightBandKeys
        in if bandParts = []
           then (if cellsOf headers = [] then None
                 else Some (med @ '': '' @ join ''; '' (cellsOf headers)))
           else Some (med @ '': '' @ join ''; '' bandParts))"

text \<open>The test of a header against the weight-band pattern
  \<open>/(kg|weight band|weight-band|weight range| to <|<=|>=)/i\<close>.\<close>

definition weightBandLike :: "string \<Rightarrow> bool" where
  "weightBandLike h =
     includes_any (toLowerCase h)
       [''kg'', ''weight band'', ''weight-band'', ''weight range'', '' to <'', ''<='', ''>='']"

definition renderDosingTable :: "chunk \<Rightarrow> obj list \<Rightarrow> obj option \<Rightarrow> rendering" where
  "renderDosingTable c logicalRows headerRow =
     (let cap = (if truthy (caption c) then or_empty (caption c) else ''Dosing table'');
          headers = getTableHeaders logicalRows
      in
      if logicalRows = [] \<or> headers = []
      then \<lparr>text_out = cap @ ''. (No rows found.)'',
            debug_out = \<lparr>renderer = Some ''dosing'', header_keys = headers,
                          row_count = length logicalRows, dbg_note = None, med_key = None,
                          weight_band_keys = None\<rparr>\<rparr>
      else
        let medKey =
              (case find (\<lambda>h. includes_any (toLowerCase h)
                                  [''medicine'', ''drug'', ''product'', ''regimen'', ''group'',
                                   ''tb drug'']) headers of
                 Some h \<Rightarrow> h | None \<Rightarrow> hd headers);
            weightBandKeys = filter weightBandLike headers
        in
        if weightBandKeys = []
        then (let generic = renderGenericTable c logicalRows headerRow in
              \<lparr>text_out = text_out generic,
               debug_out = (debug_out generic)
                 \<lparr>renderer := Some ''dosing'',
                  dbg_note := Some ''fallback_generic_no_weight_bands''\<rparr>\<rparr>)
        else
          \<lparr>text_out =
             join [CHR 0x0A]
               ((cap @ ''. Weight-band dosing summary:'')
                # concat (map (\<lambda>row. case dosingLine headers medKey weightBandKeys row of
                                        None \<Rightarrow> [] | Some l \<Rightarrow> [l]) logicalRows)),
           debug_out = \<lparr>renderer = Some ''dosing'', header_keys = headers,
                         row_count = length logicalRows, dbg_note = None,
                         med_key = Some medKey, weight_band_keys = Some weightBandKeys\<rparr>\<rparr>)"

section \<open>Table enrichment\<close>

text \<open>
  A thrown JavaScript error is a value of \<open>js_error\<close>. Reading the attachment
  (\<open>loadTableRows\<close>: the file system and the CSV parser) and \<open>renderTable\<close> run
  inside the \<open>try\<close> block of \<open>enrichChunkWithTable\<close>; both are parameters that return
  either the error they throw or their result, so that the \<open>catch\<close> branch is a branch
  of the model.
\<close>

datatype js_error = Error string

record table_result =
  subtype :: string
  tableText :: string
  debug :: table_debug

record enrich_options =
  includeTableRows :: bool
  tableRowLimit :: "int option"

definition enrichChunkWithTable ::
  "(string \<Rightarrow> js_error + obj list) \<Rightarrow> (chunk \<Rightarrow> obj list \<Rightarrow> js_error + table_result)
     \<Rightarrow> chunk \<Rightarrow> enrich_options \<Rightarrow> chunk" where
  "enrichChunkWithTable loadTableRows renderTable c options =
     (let limit = (case tableRowLimit options of None \<Rightarrow> 0 | Some n \<Rightarrow> nat (max 1 n)) in
      if ct_lc c \<noteq> ''table'' \<or> \<not> truthy (attachment_path c) then c
      else
        case loadTableRows (or_empty (attachment_path c)) of
          Inl err \<Rightarrow> c
        | Inr rawRows \<Rightarrow>
            (case renderTable c rawRows of
               Inl err \<Rightarrow> c
             | Inr r \<Rightarrow>
                 c\<lparr>table_subtype := Some (subtype r),
                   table_text := Some (tableText r),
                   table_rows :=
                     (if includeTableRows options
                      then Some (take (if limit = 0 then length rawRows else limit) rawRows)
                      else table_rows c),
                   table_row_count := Some (length rawRows),
                   table_dbg := Some (debug r)\<rparr>))"

section \<open>The query handler\<close>

text \<open>
  The request is the parsed JSON body with the HTTP method. \<open>top_k\<close> is \<open>None\<close> when
  the body gives no number. \<open>table_row_limit\<close> is the value of
  \<open>Number(body.table_row_limit)\<close>, \<open>None\<close> when that value is not finite (a missing
  field, a string that is no number); so \<open>null\<close> is \<open>Some 0\<close>. \<open>question\<close> and
  \<open>req_scope\<close> are \<open>None\<close> when the body gives none or a falsy value; a truthy
  question or scope that is not a string is outside the model (for such a question
  \<open>inferIntentFlags\<close> throws and the answer is the status 500). A result carries the
  fields of the chunk that the ranking and the enrichment work on; the fields
  \<open>guideline_title\<close>, \<open>year\<close> and \<open>attachment_id\<close>, which the handler copies from
  the chunk, and the retrieval log are left out. Loading the store and embedding the
  question are collaborators: the handler gets the store or the error of loading it,
  and a function from the question to its embedding or the error of the provider.
\<close>

record request =
  http_method :: string
  question :: "string option"
  top_k :: "real option"
  req_scope :: "string option"
  include_table_rows :: bool
  table_row_limit :: "real option"

record rag_store =
  chunks :: "chunk list"
  embeddings :: "real list list"

record result =
  r_doc_id :: "string option"
  r_chunk_id :: "string option"
  r_section_path :: "string option"
  r_text :: "string option"
  r_content_type :: "string option"
  r_attachment_path :: "string option"
  r_table_subtype :: "string option"
  r_table_text :: "string option"
  r_table_rows :: "obj list option"
  r_table_row_count :: "nat option"
  r_score :: real

record response =
  resp_question :: string
  resp_top_k :: real
  resp_scope :: "string option"
  results :: "result list"

text \<open>The ways the handler answers without results: status 405, 400 and 500.\<close>

datatype failure = MethodNotAllowed | BadRequest | ServerError

text \<open>\<open>finalTopK\<close>: the requested count (8 when no number is given) clamped to
  \<open>[1, 8]\<close>, then to the number of embeddings.\<close>

definition finalTopK :: "real option \<Rightarrow> nat \<Rightarrow> real" where
  "finalTopK k n =
     min (max 1 (min (case k of None \<Rightarrow> 8 | Some x \<Rightarrow> x) 8)) (real n)"

definition scoreChannel :: "real list \<Rightarrow> real list list \<Rightarrow> nat list \<Rightarrow> scored list" where
  "scoreChannel qEmbedding embs idxs =
     sort_desc (map (\<lambda>idx. \<lparr>index = idx, score = cosineSim qEmbedding (embs ! idx)\<rparr>) idxs)"

definition textIndices :: "chunk list \<Rightarrow> nat list \<Rightarrow> nat list" where
  "textIndices cs indices = filter (\<lambda>i. ct_lc (chunk_at cs i) \<noteq> ''table'') indices"

definition tableIndices :: "chunk list \<Rightarrow> nat list \<Rightarrow> nat list" where
  "tableIndices cs indices = filter (\<lambda>i. ct_lc (chunk_at cs i) = ''table'') indices"

text \<open>The candidates after the cascade, the merge and the two guarantee blocks, from
  the two scored and sorted channels.\<close>

definition combinedCandidates ::
  "string option \<Rightarrow> string list \<Rightarrow> chunk list \<Rightarrow> scored list \<Rightarrow> scored list \<Rightarrow> scored list" where
  "combinedCandidates sc fl cs scoredText0 scoredTables0 =
     (let scoredText = moduleBoosts (boostTextScore sc fl) cs scoredText0;
          tables1 = moduleBoosts (boostTableScore sc fl) cs scoredTables0;
          tables2 = proximityBoost cs scoredText tables1;
          tables3 = stalePenaltyTreatment sc fl cs scoredText tables2;
          scoredTables = stalePenaltyPrevention sc fl cs scoredText tables3;
          combined0 = mergeChannels scoredText scoredTables;
          combined1 = forceIncludeModule4 sc fl cs scoredText combined0
      in forceIncludeModule1 sc fl cs scoredText combined1)"

text \<open>\<open>deduped.slice(0, finalTopK)\<close>; \<open>finalTopK\<close> is at least 1 here, and \<open>slice\<close>
  truncates it to an integer.\<close>

definition topEntries :: "chunk list \<Rightarrow> real \<Rightarrow> scored list \<Rightarrow> scored list" where
  "topEntries cs k combined = take (nat \<lfloor>k\<rfloor>) (dedup cs [] combined)"

definition selectTop ::
  "string option \<Rightarrow> string list \<Rightarrow> rag_store \<Rightarrow> real list \<Rightarrow> real \<Rightarrow> nat list
     \<Rightarrow> scored list" where
  "selectTop sc fl store qEmbedding k indices =
     (let scoredText0 = scoreChannel qEmbedding (embeddings store)
                          (textIndices (chunks store) indices);
          scoredTables0 = scoreChannel qEmbedding (embeddings store)
                            (tableIndices (chunks store) indices)
      in topEntries (chunks store) k
           (combinedCandidates sc fl (chunks store) scoredText0 scoredTables0))"

definition mkResult :: "bool \<Rightarrow> chunk \<Rightarrow> real \<Rightarrow> result" where
  "mkResult inclRows c sco =
     \<lparr>r_doc_id = doc_id c, r_chunk_id = chunk_id c, r_section_path = section_path c,
      r_text = chunk_text c, r_content_type = content_type c,
      r_attachment_path = attachment_path c, r_table_subtype = table_subtype c,
      r_table_text = table_text c,
      r_table_rows = (if inclRows then table_rows c else None),
      r_table_row_count = table_row_count c, r_score = sco\<rparr>"

text \<open>The scope of the query: the scope of the request if it has one, else the scope
  inferred from the question.\<close>

definition resolvedScope :: "request \<Rightarrow> string option" where
  "resolvedScope req =
     (if truthy (req_scope req) then req_scope req
      else inferScopeFromQuestion (or_empty (question req))
             (inferIntentFlags (or_empty (question req))))"

text \<open>The test \<open>!question || typeof question !== "string" || !question.trim()\<close>.\<close>

definition missingQuestion :: "request \<Rightarrow> bool" where
  "missingQuestion req =
     (\<not> truthy (question req) \<or> trim (or_empty (question req)) = [])"

definition enrichOptions :: "request \<Rightarrow> enrich_options" where
  "enrichOptions req =
     \<lparr>includeTableRows = include_table_rows req,
      tableRowLimit = Some (case table_row_limit req of None \<Rightarrow> 150
                            | Some r \<Rightarrow> max 1 (min 500 \<lfloor>r\<rfloor>))\<rparr>"

text \<open>
  The handler. Every exception inside its \<open>try\<close> block ends in the status 500: a
  failing store or embedding provider, an empty store, and the channel split reading
  \<open>chunks[i].content_type\<close> at an index that has an embedding but no chunk. The
  indices come from the embedding positions, so \<open>embeddings[idx]\<close> is always defined.
\<close>

definition handler ::
  "(js_error + rag_store) \<Rightarrow> (string \<Rightarrow> js_error + real list)
     \<Rightarrow> (string \<Rightarrow> js_error + obj list) \<Rightarrow> (chunk \<Rightarrow> obj list \<Rightarrow> js_error + table_result)
     \<Rightarrow> request \<Rightarrow> failure + response" where
  "handler loadRagStore embedQuestion loadTableRows renderTable req =
     (if http_method req \<noteq> ''POST'' then Inl MethodNotAllowed
      else
        let q = or_empty (question req);
            intentFlags = inferIntentFlags q;
            sc = resolvedScope req
        in
        if missingQuestion req then Inl BadRequest
        else
          case loadRagStore of
            Inl err \<Rightarrow> Inl ServerError
          | Inr store \<Rightarrow>
              if embeddings store = [] \<or> chunks store = [] then Inl ServerError
              else
                (case embedQuestion q of
                   Inl err \<Rightarrow> Inl ServerError
                 | Inr qEmbedding \<Rightarrow>
                     let k = finalTopK (top_k req) (length (embeddings store));
                         fullIndices = [0 ..< length (embeddings store)];
                         indices = scopedIndices fullIndices (chunks store) sc
                     in
                     if list_ex (\<lambda>i. length (chunks store) \<le> i) indices then Inl ServerError
                     else
                       Inr \<lparr>resp_question = q, resp_top_k = k, resp_scope = sc,
                               results =
                                 map (\<lambda>e. mkResult (include_table_rows req)
                                            (enrichChunkWithTable loadTableRows renderTable
                                               (chunk_at (chunks store) (index e))
                                               (enrichOptions req))
                                            (score e))
                                     (selectTop sc intentFlags store qEmbedding k indices)\<rparr>))"

text \<open>The candidate indices of a query: the scope filter over all embedding
  positions, with its fallback.\<close>

definition handlerIndices :: "rag_store \<Rightarrow> request \<Rightarrow> nat list" where
  "handlerIndices store req =
     scopedIndices [0 ..< length (embeddings store)] (chunks store) (resolvedScope req)"

section \<open>Example data\<close>

text \<open>Concrete requests, stores and collaborators on which the theorems below are
  evaluated. \<open>returned_count\<close> is the number of results of a query that succeeded.\<close>

definition returned_count :: "failure + response \<Rightarrow> nat option" where
  "returned_count r = (case r of Inl _ \<Rightarrow> None | Inr resp \<Rightarrow> Some (length (results resp)))"

definition ex_request :: request where
  "ex_request = \<lparr>http_method = ''POST'', question = Some ''tb'', top_k = None, req_scope = None,
     include_table_rows = False, table_row_limit = None\<rparr>"

definition ex_embed :: "string \<Rightarrow> js_error + real list" where
  "ex_embed q = Inr [1]"

definition ex_load :: "string \<Rightarrow> js_error + obj list" where
  "ex_load path = Inl (Error ''ENOENT'')"

definition ex_render :: "chunk \<Rightarrow> obj list \<Rightarrow> js_error + table_result" where
  "ex_render c rows = Inl (Error ''TypeError'')"

definition ex_store_no_id :: rag_store where
  "ex_store_no_id = \<lparr>chunks = [empty_chunk\<lparr>doc_id := Some ''who_module4''\<rparr>], embeddings = [[1]]\<rparr>"

definition ex_store_one :: rag_store where
  "ex_store_one = \<lparr>chunks = [empty_chunk\<lparr>chunk_id := Some ''c1''\<rparr>], embeddings = [[1]]\<rparr>"

definition ex_store_dup :: rag_store where
  "ex_store_dup =
     \<lparr>chunks = [empty_chunk\<lparr>chunk_id := Some ''a''\<rparr>, empty_chunk\<lparr>chunk_id := Some ''b''\<rparr>,
                empty_chunk\<lparr>chunk_id := Some ''a''\<rparr>],
      embeddings = [[1], [1/2], [3/4]]\<rparr>"

definition ex_response_dup :: response where
  "ex_response_dup =
     \<lparr>resp_question = ''tb'', resp_top_k = 2, resp_scope = None,
      results = [mkResult False (empty_chunk\<lparr>chunk_id := Some ''a''\<rparr>) 1,
                 mkResult False (empty_chunk\<lparr>chunk_id := Some ''b''\<rparr>) (1/2)]\<rparr>"

definition ex_response_empty :: response where
  "ex_response_empty =
     \<lparr>resp_question = ''tb'', resp_top_k = 1, resp_scope = None, results = []\<rparr>"

definition ex_table_chunk :: chunk where
  "ex_table_chunk =
     empty_chunk\<lparr>chunk_id := Some ''t1'', doc_id := Some ''who_module5_pediatrics'',
                 content_type := Some ''table'', attachment_path := Some ''tables/m5/Table_1.csv''\<rparr>"

definition ex_load_ok :: "string \<Rightarrow> js_error + obj list" where
  "ex_load_ok path = Inr []"

definition ex_store_table :: rag_store where
  "ex_store_table =
     \<lparr>chunks = [empty_chunk\<lparr>chunk_id := Some ''p1''\<rparr>, ex_table_chunk],
      embeddings = [[1], [1/2]]\<rparr>"

definition ex_scoped_chunks :: "chunk list" where
  "ex_scoped_chunks =
     [empty_chunk\<lparr>chunk_id := Some ''d1'', scope := Some ''diagnosis''\<rparr>,
      empty_chunk\<lparr>chunk_id := Some ''s1'', scope := Some ''screening''\<rparr>]"

definition ex_scope_store :: rag_store where
  "ex_scope_store = \<lparr>chunks = ex_scoped_chunks, embeddings = [[1], [1/2]]\<rparr>"

definition ex_scope_request :: request where
  "ex_scope_request = ex_request\<lparr>req_scope := Some ''treatment''\<rparr>"

definition ex_scope_response :: response where
  "ex_scope_response =
     \<lparr>resp_question = ''tb'', resp_top_k = 2, resp_scope = Some ''treatment'',
      results = [mkResult False (ex_scoped_chunks ! 0) 1,
                 mkResult False (ex_scoped_chunks ! 1) (1/2)]\<rparr>"

definition ex_no_header_rows :: "obj list" where
  "ex_no_header_rows = [[(''_row_index'', Some ''2'')], [(''_row_index'', Some ''3'')]]"

definition ex_dosing_chunk :: chunk where
  "ex_dosing_chunk = empty_chunk\<lparr>chunk_id := Some ''t2'', content_type := Some ''table'',
     caption := Some ''Dosing of first-line medicines''\<rparr>"

definition ex_dose_rows :: "obj list" where
  "ex_dose_rows =
     [[(''Medicine'', Some ''Isoniazid''), (''Daily dose'', Some ''300 mg''), (''_row_index'', Some ''2'')],
      [(''Medicine'', Some ''Rifampicin''), (''Daily dose'', None), (''_row_index'', Some ''3'')]]"

definition ex_header_only_rows :: "obj list" where
  "ex_header_only_rows =
     [[(''row_index'', Some ''1''), (''ColumnA'', Some ''Medicine''),
       (''ColumnB'', Some ''Daily dose'')]]"

definition ex_m4_2022 :: chunk where
  "ex_m4_2022 = empty_chunk\<lparr>chunk_id := Some ''m4-old'',
     doc_id := Some ''who_module4_treatment_2022'',
     section_path := Some ''Chapter 2 : Drug-resistant TB treatment''\<rparr>"

definition ex_m4_2025 :: chunk where
  "ex_m4_2025 = empty_chunk\<lparr>chunk_id := Some ''m4-dr'',
     doc_id := Some ''who_module4_treatment_2025'',
     section_path := Some ''Chapter 2 : Drug-resistant TB treatment | 2.1 Regimens''\<rparr>"

definition ex_m1_2020 :: chunk where
  "ex_m1_2020 = empty_chunk\<lparr>chunk_id := Some ''m1-old'',
     doc_id := Some ''who_module1_tpt_2020'',
     section_path := Some ''TB preventive treatment''\<rparr>"

definition ex_peds_table :: chunk where
  "ex_peds_table = empty_chunk\<lparr>chunk_id := Some ''m5-t7'',
     doc_id := Some ''who_module5_pediatrics_2022'',
     section_path := Some ''Chapter 2 : Drug-resistant TB treatment | Table 2.1'',
     content_type := Some ''table'',
     caption := Some ''Regimen composition for children with MDR/RR-TB'',
     attachment_path := Some ''tables/module5/Table_7.csv''\<rparr>"

definition ex_m4_table :: chunk where
  "ex_m4_table = empty_chunk\<lparr>chunk_id := Some ''m4-t3'',
     doc_id := Some ''who_module4_treatment_2025'',
     section_path := Some ''Chapter 2 : Drug-resistant TB treatment | Table 2.3'',
     content_type := Some ''table''\<rparr>"

definition ex_prox_chunks :: "chunk list" where
  "ex_prox_chunks = [ex_m4_2025, ex_m4_table, ex_peds_table]"

definition ex_regimen_rows :: "obj list" where
  "ex_regimen_rows =
     [[(''row_index'', Some ''1''), (''ColumnA'', Some ''Regimen''), (''ColumnB'', Some ''Drugs'')],
      [(''row_index'', Some ''2''), (''ColumnA'', Some ''Shorter''), (''ColumnB'', Some ''Bdq-Lzd-Lfx'')]]"

definition ex_dr_flags :: "string list" where
  "ex_dr_flags = [''regimen_selection'', ''special_populations'', ''drug_resistance'']"

text \<open>A renderer that classifies a table as \<open>renderTable\<close> does, by
  \<open>normalizeTableRows\<close> and \<open>detectTableSubtype\<close>, and renders no text.\<close>

definition ex_render_subtype :: "chunk \<Rightarrow> obj list \<Rightarrow> js_error + table_result" where
  "ex_render_subtype c rawRows =
     Inr \<lparr>subtype = detectTableSubtype c (snd (normalizeTableRows rawRows))
                      (fst (normalizeTableRows rawRows)),
          tableText = [],
          debug = \<lparr>renderer = None, header_keys = [], row_count = 0, dbg_note = None,
                    med_key = None, weight_band_keys = None\<rparr>\<rparr>"

definition ex_load_regimen :: "string \<Rightarrow> js_error + obj list" where
  "ex_load_regimen path = Inr ex_regimen_rows"

definition ex_dr_store :: rag_store where
  "ex_dr_store = \<lparr>chunks = [ex_m4_2025, ex_peds_table], embeddings = [[9/10], [1/2]]\<rparr>"

definition ex_dr_request :: request where
  "ex_dr_request = \<lparr>http_method = ''POST'',
     question = Some ''Which regimen for a child with MDR-TB?'', top_k = None,
     req_scope = None, include_table_rows = False, table_row_limit = None\<rparr>"

text \<open>The chunk id, table subtype and score of each result of a query.\<close>

definition result_summary ::
  "failure + response \<Rightarrow> (string option \<times> string option \<times> real) list" where
  "result_summary r =
     (case r of Inl _ \<Rightarrow> []
      | Inr resp \<Rightarrow> map (\<lambda>x. (r_chunk_id x, r_table_subtype x, r_score x)) (results resp))"

definition ex_long_chunks :: "chunk list" where
  "ex_long_chunks = replicate 20 (empty_chunk\<lparr>chunk_id := Some ''filler''\<rparr>) @ [ex_m4_2022]"

definition ex_long_text :: "scored list" where
  "ex_long_text = map (\<lambda>i. \<lparr>index = i, score = 1 - real i / 100\<rparr>) [0 ..< 21]"


section \<open>Scope priority\<close>

lemma find_priority:
  "find (\<lambda>t. t \<in> C) topicPriority =
     (if ''treatment'' \<in> C then Some ''treatment''
      else if ''diagnosis'' \<in> C then Some ''diagnosis''
      else if ''prevention'' \<in> C then Some ''prevention''
      else if ''screening'' \<in> C then Some ''screening'' else None)"
  by (simp add: topicPriority_def)

lemma topicCandidates_subset:
  "set (topicCandidates flags) \<subseteq> {''treatment'', ''diagnosis'', ''prevention'', ''screening''}"
  by (auto simp: topicCandidates_def)

text \<open>
  C6. When the intent flags give at least one topic candidate, the scope that
  \<open>inferScopeFromQuestion\<close> resolves is the first candidate in the order treatment,
  diagnosis, prevention, screening, whatever the question text; in particular a
  treatment candidate together with a diagnosis candidate resolves to treatment. This is
  the scope of the query when the request gives no scope of its own.
\<close>

theorem scope_priority:
  assumes "topicCandidates flags \<noteq> []"
  shows "inferScopeFromQuestion q flags =
           Some (if ''treatment'' \<in> set (topicCandidates flags) then ''treatment''
                 else if ''diagnosis'' \<in> set (topicCandidates flags) then ''diagnosis''
                 else if ''prevention'' \<in> set (topicCandidates flags) then ''prevention''
                 else ''screening'')
         \<and> (''treatment'' \<in> set (topicCandidates flags)
              \<and> ''diagnosis'' \<in> set (topicCandidates flags)
            \<longrightarrow> inferScopeFromQuestion q flags = Some ''treatment'')
         \<and> (\<not> truthy (req_scope req) \<and> q = or_empty (question req)
              \<and> flags = inferIntentFlags (or_empty (question req))
            \<longrightarrow> resolvedScope req = inferScopeFromQuestion q flags)"
proof -
  obtain t where t: "t \<in> set (topicCandidates flags)"
    using assms by (cases "topicCandidates flags") auto
  then have "t \<in> {''treatment'', ''diagnosis'', ''prevention'', ''screening''}"
    using topicCandidates_subset by blast
  with t show ?thesis
    unfolding inferScopeFromQuestion_def find_priority resolvedScope_def by auto
qed

theorem scope_priority_witness:
  "inferIntentFlags ''Which regimen after Xpert?''
     = [''diagnostic_workup'', ''regimen_selection'']
   \<and> topicCandidates (inferIntentFlags ''Which regimen after Xpert?'')
       = [''diagnosis'', ''treatment'']
   \<and> inferScopeFromQuestion ''Which regimen after Xpert?''
         (inferIntentFlags ''Which regimen after Xpert?'') = Some ''treatment''
   \<and> resolvedScope (ex_request\<lparr>question := Some ''Which regimen after Xpert?''\<rparr>)
       = Some ''treatment''"
proof -
  have fl: "inferIntentFlags ''Which regimen after Xpert?''
              = [''diagnostic_workup'', ''regimen_selection'']"
    by code_simp
  have tc: "topicCandidates [''diagnostic_workup'', ''regimen_selection'']
              = [''diagnosis'', ''treatment'']"
    by (simp add: topicCandidates_def)
  have h: "topicCandidates [''diagnostic_workup'', ''regimen_selection''] \<noteq> []"
    by (simp add: tc)
  have r: "\<not> truthy (req_scope (ex_request\<lparr>question := Some ''Which regimen after Xpert?''\<rparr>))
           \<and> or_empty (question (ex_request\<lparr>question := Some ''Which regimen after Xpert?''\<rparr>))
               = ''Which regimen after Xpert?''"
    by (simp add: ex_request_def truthy_def or_empty_def)
  show ?thesis
    using fl tc r
      scope_priority [OF h, of "''Which regimen after Xpert?''"
        "ex_request\<lparr>question := Some ''Which regimen after Xpert?''\<rparr>"]
    by simp
qed

section \<open>Properties of the stages\<close>

lemma set_sort_desc: "set (sort_desc xs) = set xs"
  by (simp add: sort_desc_def)

lemma length_sort_desc: "length (sort_desc xs) = length xs"
  by (simp add: sort_desc_def)

lemma enrich_chunk_id: "chunk_id (enrichChunkWithTable T R c opts) = chunk_id c"
  by (simp add: enrichChunkWithTable_def Let_def split: sum.splits)

lemma mkResult_sel: "r_chunk_id (mkResult b c s) = chunk_id c" "r_score (mkResult b c s) = s"
  by (simp_all add: mkResult_def)

lemma handler_results:
  assumes "handler S E T R req = Inr resp"
  shows "\<exists>store qE.
           S = Inr store \<and> embeddings store \<noteq> [] \<and> chunks store \<noteq> []
           \<and> E (or_empty (question req)) = Inr qE
           \<and> \<not> list_ex (\<lambda>i. length (chunks store) \<le> i) (handlerIndices store req)
           \<and> resp_top_k resp = finalTopK (top_k req) (length (embeddings store))
           \<and> results resp =
               map (\<lambda>e. mkResult (include_table_rows req)
                          (enrichChunkWithTable T R (chunk_at (chunks store) (index e))
                             (enrichOptions req))
                          (score e))
                   (selectTop (resolvedScope req) (inferIntentFlags (or_empty (question req)))
                      store qE (finalTopK (top_k req) (length (embeddings store)))
                      (handlerIndices store req))"
  using assms
  unfolding handler_def Let_def handlerIndices_def
  by (auto split: if_splits sum.splits)

lemma handler_independent:
  "map_sum id (\<lambda>r. map (\<lambda>x. (r_chunk_id x, r_score x)) (results r)) (handler S E T R req)
   = map_sum id (\<lambda>r. map (\<lambda>x. (r_chunk_id x, r_score x)) (results r)) (handler S E T' R' req)"
  unfolding handler_def Let_def
  by (auto split: if_splits sum.splits simp: mkResult_sel enrich_chunk_id)

subsection \<open>Deduplication\<close>

lemma dedup_sound:
  "e \<in> set (dedup cs seen es) \<Longrightarrow>
     e \<in> set es \<and> (\<exists>i. chunk_id (chunk_at cs (index e)) = Some i \<and> i \<noteq> [] \<and> i \<notin> set seen)"
proof (induction es arbitrary: seen)
  case Nil
  then show ?case by simp
next
  case (Cons x xs)
  then show ?case
    by (fastforce split: option.splits if_splits)
qed

lemma dedup_distinct:
  "distinct (map (\<lambda>e. chunk_id (chunk_at cs (index e))) (dedup cs seen es))"
proof (induction es arbitrary: seen)
  case Nil
  then show ?case by simp
next
  case (Cons x xs)
  show ?case
  proof (cases "chunk_id (chunk_at cs (index x))")
    case None
    then show ?thesis using Cons.IH by simp
  next
    case (Some i)
    show ?thesis
    proof (cases "i = [] \<or> i \<in> set seen")
      case True
      then show ?thesis using Some Cons.IH by auto
    next
      case False
      have "Some i \<notin> (\<lambda>e. chunk_id (chunk_at cs (index e))) ` set (dedup cs (i # seen) xs)"
        using dedup_sound [of _ cs "i # seen" xs] by force
      then show ?thesis using Some False Cons.IH [of "i # seen"] by simp
    qed
  qed
qed

lemma dedup_all_missing:
  "\<forall>e \<in> set es. \<not> truthy (chunk_id (chunk_at cs (index e))) \<Longrightarrow> dedup cs seen es = []"
  by (induction es arbitrary: seen) (auto simp: truthy_def split: option.splits)

lemma dedup_nonempty:
  "es \<noteq> [] \<Longrightarrow> truthy (chunk_id (chunk_at cs (index (hd es)))) \<Longrightarrow> dedup cs [] es \<noteq> []"
  by (cases es) (auto simp: truthy_def split: option.splits)

subsection \<open>Lengths and indices of the stages\<close>

lemma sort_desc_Nil_iff: "sort_desc xs = [] \<longleftrightarrow> xs = []"
  by (metis set_empty set_sort_desc)

lemma index_map_preserving:
  "(\<And>e. index (f e) = index e) \<Longrightarrow> index ` set (sort_desc (map f xs)) = index ` set xs"
  by (simp add: set_sort_desc image_image)

lemma index_sort_desc: "index ` set (sort_desc xs) = index ` set xs"
  by (simp add: set_sort_desc)

lemma length_moduleBoosts: "length (moduleBoosts b cs xs) = length xs"
  by (simp add: moduleBoosts_def length_sort_desc)

lemma index_moduleBoosts: "index ` set (moduleBoosts b cs xs) = index ` set xs"
  unfolding moduleBoosts_def by (rule index_map_preserving) simp

lemma index_proximityEntry: "index (proximityEntry cs t e) = index e"
  by (simp add: proximityEntry_def Let_def)

lemma length_proximityBoost: "length (proximityBoost cs t xs) = length xs"
  by (simp add: proximityBoost_def length_sort_desc)

lemma index_proximityBoost: "index ` set (proximityBoost cs t xs) = index ` set xs"
  unfolding proximityBoost_def by (rule index_map_preserving) (rule index_proximityEntry)

lemma length_penalize: "length (penalize p cs xs) = length xs"
  by (simp add: penalize_def length_sort_desc)

lemma index_penalize: "index ` set (penalize p cs xs) = index ` set xs"
  unfolding penalize_def by (rule index_map_preserving) simp

lemma length_stale:
  "length (stalePenaltyTreatment sc fl cs t xs) = length xs"
  "length (stalePenaltyPrevention sc fl cs t xs) = length xs"
  by (simp_all add: stalePenaltyTreatment_def stalePenaltyPrevention_def length_penalize)

lemma index_stale:
  "index ` set (stalePenaltyTreatment sc fl cs t xs) = index ` set xs"
  "index ` set (stalePenaltyPrevention sc fl cs t xs) = index ` set xs"
  by (simp_all add: stalePenaltyTreatment_def stalePenaltyPrevention_def index_penalize)

lemma mergeChannels_nonempty: "t \<noteq> [] \<or> tb \<noteq> [] \<Longrightarrow> mergeChannels t tb \<noteq> []"
  by (cases t; cases tb)
     (simp_all add: mergeChannels_def TEXT_LIMIT_def TABLE_LIMIT_def sort_desc_Nil_iff)

lemma set_mergeChannels: "set (mergeChannels t tb) \<subseteq> set t \<union> set tb"
  by (auto simp: mergeChannels_def set_sort_desc dest: in_set_takeD)

lemma forceLoop_append:
  "\<exists>added. forceLoop n cands combined = combined @ added \<and> set added \<subseteq> set cands"
proof (induction cands arbitrary: n combined)
  case Nil
  then show ?case by simp
next
  case (Cons c cs)
  show ?case
  proof (cases "n = 0 \<or> list_ex (\<lambda>e. index e = index c) combined")
    case True
    then show ?thesis using Cons.IH [of n combined] by auto
  next
    case False
    obtain added where "forceLoop (n - 1) cs (combined @ [c]) = (combined @ [c]) @ added"
      "set added \<subseteq> set cs"
      using Cons.IH [of "n - 1" "combined @ [c]"] by blast
    then show ?thesis using False by auto
  qed
qed

lemma forceInclude_nonempty: "combined \<noteq> [] \<Longrightarrow> forceInclude p cs t combined \<noteq> []"
  using forceLoop_append [of 2 "filter (\<lambda>e. p (chunk_at cs (index e))) t" combined]
  by (auto simp: forceInclude_def sort_desc_Nil_iff)

lemma set_forceInclude: "set (forceInclude p cs t combined) \<subseteq> set t \<union> set combined"
  using forceLoop_append [of 2 "filter (\<lambda>e. p (chunk_at cs (index e))) t" combined]
  by (auto simp: forceInclude_def set_sort_desc)

lemma combinedCandidates_nonempty:
  assumes "t0 \<noteq> [] \<or> tb0 \<noteq> []"
  shows "combinedCandidates sc fl cs t0 tb0 \<noteq> []"
proof -
  let ?t = "moduleBoosts (boostTextScore sc fl) cs t0"
  let ?tb = "stalePenaltyPrevention sc fl cs ?t (stalePenaltyTreatment sc fl cs ?t
              (proximityBoost cs ?t (moduleBoosts (boostTableScore sc fl) cs tb0)))"
  have "length ?t = length t0" by (simp add: length_moduleBoosts)
  moreover have "length ?tb = length tb0"
    by (simp add: length_stale length_proximityBoost length_moduleBoosts)
  ultimately have "?t \<noteq> [] \<or> ?tb \<noteq> []" using assms by auto
  then have "mergeChannels ?t ?tb \<noteq> []" by (rule mergeChannels_nonempty)
  then show ?thesis
    by (simp add: combinedCandidates_def Let_def forceIncludeModule4_def forceIncludeModule1_def
        forceInclude_nonempty)
qed

lemma index_combinedCandidates:
  "index ` set (combinedCandidates sc fl cs t0 tb0) \<subseteq> index ` set t0 \<union> index ` set tb0"
proof -
  let ?t = "moduleBoosts (boostTextScore sc fl) cs t0"
  let ?tb = "stalePenaltyPrevention sc fl cs ?t (stalePenaltyTreatment sc fl cs ?t
              (proximityBoost cs ?t (moduleBoosts (boostTableScore sc fl) cs tb0)))"
  have t: "index ` set ?t = index ` set t0" by (simp add: index_moduleBoosts)
  have tb: "index ` set ?tb = index ` set tb0"
    by (simp add: index_stale index_proximityBoost index_moduleBoosts)
  have m: "set (mergeChannels ?t ?tb) \<subseteq> set ?t \<union> set ?tb" by (rule set_mergeChannels)
  have f4: "set (forceIncludeModule4 sc fl cs ?t (mergeChannels ?t ?tb)) \<subseteq> set ?t \<union> set ?tb"
    using m set_forceInclude [of isModule4DrChunk cs ?t "mergeChannels ?t ?tb"]
    by (auto simp: forceIncludeModule4_def)
  have f1: "set (forceIncludeModule1 sc fl cs ?t (forceIncludeModule4 sc fl cs ?t (mergeChannels ?t ?tb)))
             \<subseteq> set ?t \<union> set ?tb"
    using f4 set_forceInclude [of isModule1TptChunk cs ?t
                "forceIncludeModule4 sc fl cs ?t (mergeChannels ?t ?tb)"]
    by (auto simp: forceIncludeModule1_def)
  have "set (combinedCandidates sc fl cs t0 tb0) \<subseteq> set ?t \<union> set ?tb"
    using f1 by (simp add: combinedCandidates_def Let_def)
  then have "index ` set (combinedCandidates sc fl cs t0 tb0) \<subseteq> index ` set ?t \<union> index ` set ?tb"
    by blast
  then show ?thesis using t tb by simp
qed

lemma index_scoreChannel: "index ` set (scoreChannel q embs is) = set is"
  by (simp add: scoreChannel_def set_sort_desc image_image)

lemma scoreChannel_nonempty: "is \<noteq> [] \<Longrightarrow> scoreChannel q embs is \<noteq> []"
  by (simp add: scoreChannel_def sort_desc_Nil_iff)

lemma chunk_at_no_id:
  "\<forall>c \<in> set cs. \<not> truthy (chunk_id c) \<Longrightarrow> \<not> truthy (chunk_id (chunk_at cs i))"
  by (simp add: chunk_at_def empty_chunk_def truthy_def)

lemma chunk_at_has_id:
  "\<forall>c \<in> set cs. truthy (chunk_id c) \<Longrightarrow> i < length cs \<Longrightarrow> truthy (chunk_id (chunk_at cs i))"
  by (simp add: chunk_at_def)

lemma topEntries_truthy:
  "e \<in> set (topEntries cs k combined) \<Longrightarrow> truthy (chunk_id (chunk_at cs (index e)))"
proof -
  assume "e \<in> set (topEntries cs k combined)"
  then have "e \<in> set (dedup cs [] combined)"
    unfolding topEntries_def by (rule in_set_takeD)
  then show ?thesis
    using dedup_sound [of e cs "[]" combined] by (auto simp: truthy_def)
qed

lemma topEntries_in_range:
  "e \<in> set (topEntries cs k combined) \<Longrightarrow> index e < length cs"
  using topEntries_truthy [of e cs k combined]
  by (cases "index e < length cs") (auto simp: chunk_at_def empty_chunk_def truthy_def)

lemma topEntries_distinct:
  "distinct (map (\<lambda>e. chunk_id (chunk_at cs (index e))) (topEntries cs k combined))"
  unfolding topEntries_def using dedup_distinct [of cs "[]" combined]
  by (simp add: distinct_map inj_on_def) (metis in_set_takeD)

lemma topEntries_length: "1 \<le> k \<Longrightarrow> real (length (topEntries cs k combined)) \<le> k"
proof -
  assume k: "1 \<le> k"
  have "length (topEntries cs k combined) \<le> nat \<lfloor>k\<rfloor>" by (simp add: topEntries_def)
  then have "real (length (topEntries cs k combined)) \<le> real (nat \<lfloor>k\<rfloor>)" by simp
  also have "\<dots> \<le> k" using k by simp
  finally show ?thesis .
qed

lemma topEntries_length_chunks: "length (topEntries cs k combined) \<le> length cs"
proof -
  let ?xs = "topEntries cs k combined"
  have "distinct (map ((\<lambda>i. chunk_id (chunk_at cs i)) \<circ> index) ?xs)"
    using topEntries_distinct [of cs k combined] by (simp add: comp_def)
  then have d: "distinct (map index ?xs)"
    by (simp add: distinct_map inj_on_def) 
  have "set (map index ?xs) \<subseteq> {..< length cs}"
    using topEntries_in_range by auto
  then have "card (set (map index ?xs)) \<le> length cs"
    by (metis card_lessThan card_mono finite_lessThan)
  moreover have "card (set (map index ?xs)) = length (map index ?xs)"
    using d by (rule distinct_card)
  ultimately show ?thesis by simp
qed

lemma finalTopK_ge1: "0 < n \<Longrightarrow> 1 \<le> finalTopK r n"
  by (cases r) (auto simp: finalTopK_def)

lemma finalTopK_bound:
  "finalTopK r n \<le> min (max 1 (case r of None \<Rightarrow> 8 | Some x \<Rightarrow> x)) (min 8 (real n))"
  by (cases r) (auto simp: finalTopK_def)

lemma selectTop_nonempty:
  assumes ids: "\<forall>c \<in> set (chunks store). truthy (chunk_id c)"
    and rng: "\<forall>i \<in> set indices. i < length (chunks store)"
    and ne: "indices \<noteq> []" and k: "1 \<le> k"
  shows "selectTop sc fl store qE k indices \<noteq> []"
proof -
  let ?cs = "chunks store"
  let ?t0 = "scoreChannel qE (embeddings store) (textIndices ?cs indices)"
  let ?tb0 = "scoreChannel qE (embeddings store) (tableIndices ?cs indices)"
  let ?comb = "combinedCandidates sc fl ?cs ?t0 ?tb0"
  have "textIndices ?cs indices \<noteq> [] \<or> tableIndices ?cs indices \<noteq> []"
    using ne by (cases indices) (auto simp: textIndices_def tableIndices_def)
  then have "?t0 \<noteq> [] \<or> ?tb0 \<noteq> []" by (auto simp: scoreChannel_nonempty)
  then have c: "?comb \<noteq> []" by (rule combinedCandidates_nonempty)
  have "index ` set ?comb \<subseteq> set (textIndices ?cs indices) \<union> set (tableIndices ?cs indices)"
    using index_combinedCandidates [of sc fl ?cs ?t0 ?tb0] by (simp add: index_scoreChannel)
  then have "index ` set ?comb \<subseteq> set indices"
    by (auto simp: textIndices_def tableIndices_def)
  then have "index (hd ?comb) < length ?cs" using c rng by (cases ?comb) auto
  then have "truthy (chunk_id (chunk_at ?cs (index (hd ?comb))))"
    using ids by (simp add: chunk_at_has_id)
  then have "dedup ?cs [] ?comb \<noteq> []" using c by (simp add: dedup_nonempty)
  moreover have "0 < nat \<lfloor>k\<rfloor>" using k by linarith
  ultimately have "take (nat \<lfloor>k\<rfloor>) (dedup ?cs [] ?comb) \<noteq> []" by simp
  then show ?thesis by (simp add: selectTop_def Let_def topEntries_def)
qed


section \<open>Result count and chunk identity\<close>

text \<open>
  C1, as the code has it. For every query that the handler answers with results, the
  number of results is at most the requested count clamped to \<open>[1, 8]\<close> (8 when no
  count is given), at most the number of embeddings and at most the number of chunks, and
  no two results have the same chunk id. The number of results is positive when every
  chunk of the corpus has a non-empty chunk id.
\<close>

theorem result_count_bounds:
  assumes "handler (Inr store) E T R req = Inr resp"
  shows "real (length (results resp))
           \<le> min (max 1 (case top_k req of None \<Rightarrow> 8 | Some x \<Rightarrow> x))
                 (min 8 (real (length (embeddings store))))
         \<and> length (results resp) \<le> length (chunks store)
         \<and> distinct (map r_chunk_id (results resp))
         \<and> ((\<forall>c \<in> set (chunks store). truthy (chunk_id c)) \<longrightarrow> 0 < length (results resp))"
proof -
  let ?k = "finalTopK (top_k req) (length (embeddings store))"
  let ?idx = "handlerIndices store req"
  obtain qE where ne: "embeddings store \<noteq> []"
    and rng: "\<not> list_ex (\<lambda>i. length (chunks store) \<le> i) ?idx"
    and res: "results resp =
               map (\<lambda>e. mkResult (include_table_rows req)
                          (enrichChunkWithTable T R (chunk_at (chunks store) (index e))
                             (enrichOptions req)) (score e))
                   (selectTop (resolvedScope req) (inferIntentFlags (or_empty (question req)))
                      store qE ?k ?idx)"
    using handler_results [OF assms] by auto
  let ?sel = "selectTop (resolvedScope req) (inferIntentFlags (or_empty (question req))) store qE ?k ?idx"
  have sel: "?sel = topEntries (chunks store) ?k
       (combinedCandidates (resolvedScope req) (inferIntentFlags (or_empty (question req)))
          (chunks store)
          (scoreChannel qE (embeddings store) (textIndices (chunks store) ?idx))
          (scoreChannel qE (embeddings store) (tableIndices (chunks store) ?idx)))"
    by (simp add: selectTop_def Let_def)
  have k1: "1 \<le> ?k" using ne by (simp add: finalTopK_ge1)
  have len: "length (results resp) = length ?sel" by (simp add: res)
  have "real (length ?sel) \<le> ?k" unfolding sel using k1 by (rule topEntries_length)
  then have b1: "real (length (results resp))
           \<le> min (max 1 (case top_k req of None \<Rightarrow> 8 | Some x \<Rightarrow> x))
                 (min 8 (real (length (embeddings store))))"
    using finalTopK_bound [of "top_k req" "length (embeddings store)"] len by linarith
  have b2: "length (results resp) \<le> length (chunks store)"
    unfolding len sel by (rule topEntries_length_chunks)
  have "map r_chunk_id (results resp) = map (\<lambda>e. chunk_id (chunk_at (chunks store) (index e))) ?sel"
    by (simp add: res mkResult_sel enrich_chunk_id)
  then have b3: "distinct (map r_chunk_id (results resp))"
    unfolding sel by (simp add: topEntries_distinct)
  have b4: "0 < length (results resp)" if ids: "\<forall>c \<in> set (chunks store). truthy (chunk_id c)"
  proof -
    have "?idx \<noteq> []" using ne by (simp add: handlerIndices_def scopedIndices_def)
    moreover have "\<forall>i \<in> set ?idx. i < length (chunks store)"
      using rng by (auto simp: list_ex_iff)
    ultimately have "?sel \<noteq> []" using ids k1 by (intro selectTop_nonempty) auto
    then show ?thesis by (simp add: len)
  qed
  show ?thesis using b1 b2 b3 b4 by blast
qed

theorem result_count_bounds_witness:
  "handler (Inr ex_store_dup) ex_embed ex_load ex_render (ex_request\<lparr>top_k := Some 2\<rparr>)
     = Inr ex_response_dup
   \<and> list_all (\<lambda>c. truthy (chunk_id c)) (chunks ex_store_dup)
   \<and> length (results ex_response_dup) = 2
   \<and> distinct (map r_chunk_id (results ex_response_dup))"
proof -
  have h: "handler (Inr ex_store_dup) ex_embed ex_load ex_render (ex_request\<lparr>top_k := Some 2\<rparr>)
             = Inr ex_response_dup"
    by code_simp
  have l: "length (results ex_response_dup) = 2"
    by (simp add: ex_response_dup_def)
  have i: "list_all (\<lambda>c. truthy (chunk_id c)) (chunks ex_store_dup)"
    by (simp add: ex_store_dup_def truthy_def)
  show ?thesis
    using h l i result_count_bounds [OF h] by simp
qed

text \<open>
  The claim as stated fails in two ways: a corpus whose only chunk has no chunk id gives
  a successful query with no result, and a requested count of 0 is raised to 1, so that
  one result is returned where the stated bound is 0.
\<close>

theorem result_count_counterexample:
  "returned_count (handler (Inr ex_store_no_id) ex_embed ex_load ex_render ex_request) = Some 0
   \<and> returned_count (handler (Inr ex_store_one) ex_embed ex_load ex_render
        (ex_request\<lparr>top_k := Some 0\<rparr>)) = Some 1"
  by code_simp

text \<open>
  C10. The deduplication keeps no candidate whose chunk has a missing or empty chunk id,
  whatever the merged list holds (top-scored and force-included candidates are part of
  it): no result of a query has a missing or empty chunk id, and when every merged
  candidate (or every chunk of the corpus) lacks a chunk id the results are empty.
\<close>

theorem missing_chunk_id_discarded:
  "(\<forall>e \<in> set (topEntries cs k combined). truthy (chunk_id (chunk_at cs (index e))))
   \<and> ((\<forall>e \<in> set combined. \<not> truthy (chunk_id (chunk_at cs (index e))))
        \<longrightarrow> topEntries cs k combined = [])
   \<and> (handler S E T R req = Inr resp \<longrightarrow> (\<forall>r \<in> set (results resp). truthy (r_chunk_id r)))
   \<and> (handler (Inr store) E T R req = Inr resp
        \<and> (\<forall>c \<in> set (chunks store). \<not> truthy (chunk_id c)) \<longrightarrow> results resp = [])"
proof -
  have a: "\<forall>e \<in> set (topEntries cs k combined). truthy (chunk_id (chunk_at cs (index e)))"
    using topEntries_truthy by blast
  have b: "(\<forall>e \<in> set combined. \<not> truthy (chunk_id (chunk_at cs (index e))))
        \<longrightarrow> topEntries cs k combined = []"
    by (simp add: topEntries_def dedup_all_missing)
  have c: "\<forall>r \<in> set (results resp). truthy (r_chunk_id r)"
    if h: "handler S E T R req = Inr resp"
  proof -
    obtain st qE where res: "results resp =
               map (\<lambda>e. mkResult (include_table_rows req)
                          (enrichChunkWithTable T R (chunk_at (chunks st) (index e))
                             (enrichOptions req)) (score e))
                   (selectTop (resolvedScope req) (inferIntentFlags (or_empty (question req)))
                      st qE (finalTopK (top_k req) (length (embeddings st)))
                      (handlerIndices st req))"
      using handler_results [OF h] by auto
    show ?thesis
      unfolding res selectTop_def Let_def
      using topEntries_truthy by (auto simp: mkResult_sel enrich_chunk_id)
  qed
  have d: "results resp = []"
    if h: "handler (Inr store) E T R req = Inr resp"
      and ids: "\<forall>c \<in> set (chunks store). \<not> truthy (chunk_id c)"
  proof -
    obtain qE where res: "results resp =
               map (\<lambda>e. mkResult (include_table_rows req)
                          (enrichChunkWithTable T R (chunk_at (chunks store) (index e))
                             (enrichOptions req)) (score e))
                   (selectTop (resolvedScope req) (inferIntentFlags (or_empty (question req)))
                      store qE (finalTopK (top_k req) (length (embeddings store)))
                      (handlerIndices store req))"
      using handler_results [OF h] by auto
    show ?thesis
      unfolding res selectTop_def Let_def
      using chunk_at_no_id [OF ids] by (simp add: topEntries_def dedup_all_missing)
  qed
  show ?thesis using a b c d by blast
qed

theorem missing_chunk_id_discarded_witness:
  "handler (Inr ex_store_no_id) ex_embed ex_load ex_render ex_request = Inr ex_response_empty
   \<and> topEntries (chunks ex_store_no_id) 1 [\<lparr>index = 0, score = 1\<rparr>] = []
   \<and> topEntries (chunks ex_store_dup) 8
        [\<lparr>index = 0, score = 1\<rparr>, \<lparr>index = 3, score = 9/10\<rparr>, \<lparr>index = 1, score = 1/2\<rparr>]
      = [\<lparr>index = 0, score = 1\<rparr>, \<lparr>index = 1, score = 1/2\<rparr>]
   \<and> results ex_response_empty = []
   \<and> handler (Inr ex_store_dup) ex_embed ex_load ex_render (ex_request\<lparr>top_k := Some 2\<rparr>)
       = Inr ex_response_dup
   \<and> map r_chunk_id (results ex_response_dup) = [Some ''a'', Some ''b'']"
proof -
  have h2: "handler (Inr ex_store_dup) ex_embed ex_load ex_render (ex_request\<lparr>top_k := Some 2\<rparr>)
             = Inr ex_response_dup"
    by code_simp
  have r2: "map r_chunk_id (results ex_response_dup) = [Some ''a'', Some ''b'']"
    by (simp add: ex_response_dup_def mkResult_def)
  have h: "handler (Inr ex_store_no_id) ex_embed ex_load ex_render ex_request
             = Inr ex_response_empty"
    by code_simp
  have t: "topEntries (chunks ex_store_dup) 8
        [\<lparr>index = 0, score = 1\<rparr>, \<lparr>index = 3, score = 9/10\<rparr>, \<lparr>index = 1, score = 1/2\<rparr>]
      = [\<lparr>index = 0, score = 1\<rparr>, \<lparr>index = 1, score = 1/2\<rparr>]"
    by code_simp
  have n: "\<forall>c \<in> set (chunks ex_store_no_id). \<not> truthy (chunk_id c)"
    by (simp add: ex_store_no_id_def empty_chunk_def truthy_def)
  have m: "\<forall>e \<in> set [\<lparr>index = 0, score = 1\<rparr>].
             \<not> truthy (chunk_id (chunk_at (chunks ex_store_no_id) (index e)))"
    by (simp add: ex_store_no_id_def empty_chunk_def truthy_def chunk_at_def)
  show ?thesis
    using h t n m h2 r2
      missing_chunk_id_discarded [of "chunks ex_store_dup" 8
        "[\<lparr>index = 0, score = 1\<rparr>, \<lparr>index = 3, score = 9/10\<rparr>, \<lparr>index = 1, score = 1/2\<rparr>]"
        "Inr ex_store_dup" ex_embed ex_load ex_render "ex_request\<lparr>top_k := Some 2\<rparr>"
        ex_response_dup ex_store_dup]
      missing_chunk_id_discarded [of "chunks ex_store_no_id" 1 "[\<lparr>index = 0, score = 1\<rparr>]"
        "Inr ex_store_no_id" ex_embed ex_load ex_render ex_request ex_response_empty ex_store_no_id]
    by simp
qed

section \<open>Scope fallback\<close>

lemma scopedIndices_fallback:
  "filterIndicesByScope fullIndices cs sc = [] \<Longrightarrow> scopedIndices fullIndices cs sc = fullIndices"
  by (simp add: scopedIndices_def)

text \<open>
  C3. When the scope filter leaves no index for the scope of the query, the handler
  retrieves over all embedding positions: the results of a query that it answers are
  the selection over the full index list, and they are not empty when every chunk has a
  chunk id. Such a query is answered with results whenever the request is a well-formed
  POST, the store is not empty, the question is embedded and every embedding has a chunk.
\<close>

theorem scope_fallback:
  assumes empty: "filterIndicesByScope [0 ..< length (embeddings store)] (chunks store)
                    (resolvedScope req) = []"
  shows "(handler (Inr store) E T R req = Inr resp \<longrightarrow>
            (\<exists>qE. E (or_empty (question req)) = Inr qE
               \<and> results resp =
                   map (\<lambda>e. mkResult (include_table_rows req)
                              (enrichChunkWithTable T R (chunk_at (chunks store) (index e))
                                 (enrichOptions req))
                              (score e))
                       (selectTop (resolvedScope req)
                          (inferIntentFlags (or_empty (question req))) store qE
                          (finalTopK (top_k req) (length (embeddings store)))
                          [0 ..< length (embeddings store)]))
            \<and> ((\<forall>c \<in> set (chunks store). truthy (chunk_id c)) \<longrightarrow> results resp \<noteq> []))
         \<and> (http_method req = ''POST'' \<and> \<not> missingQuestion req
              \<and> embeddings store \<noteq> [] \<and> chunks store \<noteq> []
              \<and> length (embeddings store) \<le> length (chunks store)
              \<and> E (or_empty (question req)) = Inr v
            \<longrightarrow> (\<exists>r. handler (Inr store) E T R req = Inr r))
         \<and> handlerIndices store req = [0 ..< length (embeddings store)]"
proof -
  let ?full = "[0 ..< length (embeddings store)]"
  let ?k = "finalTopK (top_k req) (length (embeddings store))"
  let ?fl = "inferIntentFlags (or_empty (question req))"
  have idx: "handlerIndices store req = ?full"
    using empty by (simp add: handlerIndices_def scopedIndices_fallback)
  have sc: "scopedIndices ?full (chunks store) (resolvedScope req) = ?full"
    using empty by (rule scopedIndices_fallback)
  have a: "(\<exists>qE. E (or_empty (question req)) = Inr qE
               \<and> results resp =
                   map (\<lambda>e. mkResult (include_table_rows req)
                              (enrichChunkWithTable T R (chunk_at (chunks store) (index e))
                                 (enrichOptions req))
                              (score e))
                       (selectTop (resolvedScope req) ?fl store qE ?k ?full))
            \<and> ((\<forall>c \<in> set (chunks store). truthy (chunk_id c)) \<longrightarrow> results resp \<noteq> [])"
    if h: "handler (Inr store) E T R req = Inr resp"
  proof -
    obtain qE where ne: "embeddings store \<noteq> []"
      and qE: "E (or_empty (question req)) = Inr qE"
      and rng: "\<not> list_ex (\<lambda>i. length (chunks store) \<le> i) (handlerIndices store req)"
      and res: "results resp =
                 map (\<lambda>e. mkResult (include_table_rows req)
                            (enrichChunkWithTable T R (chunk_at (chunks store) (index e))
                               (enrichOptions req)) (score e))
                     (selectTop (resolvedScope req) ?fl store qE ?k (handlerIndices store req))"
      using handler_results [OF h] by auto
    have res': "results resp =
                 map (\<lambda>e. mkResult (include_table_rows req)
                            (enrichChunkWithTable T R (chunk_at (chunks store) (index e))
                               (enrichOptions req)) (score e))
                     (selectTop (resolvedScope req) ?fl store qE ?k ?full)"
      using res by (simp add: idx)
    have pos: "results resp \<noteq> []" if ids: "\<forall>c \<in> set (chunks store). truthy (chunk_id c)"
    proof -
      have "?full \<noteq> []" using ne by simp
      moreover have "\<forall>i \<in> set ?full. i < length (chunks store)"
        using rng unfolding idx list_ex_iff by (meson not_le)
      moreover have "1 \<le> ?k" using ne by (simp add: finalTopK_ge1)
      ultimately have "selectTop (resolvedScope req) ?fl store qE ?k ?full \<noteq> []"
        using ids by (intro selectTop_nonempty)
      then show ?thesis by (simp add: res')
    qed
    show ?thesis using qE res' pos by blast
  qed
  have b: "\<exists>r. handler (Inr store) E T R req = Inr r"
    if "http_method req = ''POST''" "\<not> missingQuestion req" "embeddings store \<noteq> []"
      "chunks store \<noteq> []" "length (embeddings store) \<le> length (chunks store)"
      "E (or_empty (question req)) = Inr v"
  proof -
    have "\<not> list_ex (\<lambda>i. length (chunks store) \<le> i)
              (scopedIndices ?full (chunks store) (resolvedScope req))"
      unfolding sc list_ex_iff using that(5) by auto
    then show ?thesis
      using that unfolding handler_def Let_def by simp
  qed
  show ?thesis using a b idx by blast
qed

theorem scope_fallback_witness:
  "filterIndicesByScope [0 ..< length (embeddings ex_scope_store)] (chunks ex_scope_store)
       (resolvedScope ex_scope_request) = []
   \<and> handler (Inr ex_scope_store) ex_embed ex_load ex_render ex_scope_request
       = Inr ex_scope_response
   \<and> map r_chunk_id (results ex_scope_response) = [Some ''d1'', Some ''s1'']
   \<and> results ex_scope_response \<noteq> []
   \<and> handlerIndices ex_scope_store ex_scope_request = [0, 1]"
proof -
  have f: "filterIndicesByScope [0 ..< length (embeddings ex_scope_store)]
             (chunks ex_scope_store) (resolvedScope ex_scope_request) = []"
    by code_simp
  have h: "handler (Inr ex_scope_store) ex_embed ex_load ex_render ex_scope_request
             = Inr ex_scope_response"
    by code_simp
  have r: "map r_chunk_id (results ex_scope_response) = [Some ''d1'', Some ''s1'']"
    by code_simp
  have ids: "\<forall>c \<in> set (chunks ex_scope_store). truthy (chunk_id c)"
    by (simp add: ex_scope_store_def ex_scoped_chunks_def truthy_def)
  have n: "[0 ..< length (embeddings ex_scope_store)] = [0, 1]"
    by code_simp
  have t: "results ex_scope_response \<noteq> []
           \<and> handlerIndices ex_scope_store ex_scope_request = [0 ..< length (embeddings ex_scope_store)]"
    using h ids
      scope_fallback [OF f, where E = ex_embed and T = ex_load and R = ex_render
        and resp = ex_scope_response and v = "[1]"]
    by blast
  show ?thesis using f h r t n by simp
qed

section \<open>Enrichment failures\<close>

text \<open>
  C8. When loading the attachment of a chunk or rendering its table throws, the
  enrichment returns the chunk as it is, with no table field added. Whether the query
  succeeds, and which chunks it returns with which scores, does not depend on the table
  loader and renderer, so a failing table leaves the query and its other results as they
  are.
\<close>

theorem enrichment_failure_not_fatal:
  assumes "T (or_empty (attachment_path c)) = Inl err
           \<or> (\<exists>rows. T (or_empty (attachment_path c)) = Inr rows \<and> R c rows = Inl err)"
  shows "enrichChunkWithTable T R c opts = c
         \<and> map_sum id (\<lambda>r. map (\<lambda>x. (r_chunk_id x, r_score x)) (results r))
               (handler S E T R req)
           = map_sum id (\<lambda>r. map (\<lambda>x. (r_chunk_id x, r_score x)) (results r))
               (handler S E T' R' req)"
proof -
  have "enrichChunkWithTable T R c opts = c"
    using assms by (auto simp: enrichChunkWithTable_def Let_def)
  then show ?thesis using handler_independent by blast
qed

theorem enrichment_failure_not_fatal_witness:
  "ex_load (or_empty (attachment_path ex_table_chunk)) = Inl (Error ''ENOENT'')
   \<and> ex_load_ok (or_empty (attachment_path ex_table_chunk)) = Inr []
   \<and> ex_render ex_table_chunk [] = Inl (Error ''TypeError'')
   \<and> enrichChunkWithTable ex_load ex_render ex_table_chunk (enrichOptions ex_request)
       = ex_table_chunk
   \<and> enrichChunkWithTable ex_load_ok ex_render ex_table_chunk (enrichOptions ex_request)
       = ex_table_chunk
   \<and> map_sum id (map r_table_subtype \<circ> results)
       (handler (Inr ex_store_table) ex_embed ex_load_ok ex_render ex_request)
       = Inr [None, None]"
proof -
  have a: "ex_load (or_empty (attachment_path ex_table_chunk)) = Inl (Error ''ENOENT'')"
    by (simp add: ex_load_def)
  have b: "ex_load_ok (or_empty (attachment_path ex_table_chunk)) = Inr []
           \<and> ex_render ex_table_chunk [] = Inl (Error ''TypeError'')"
    by (simp add: ex_load_ok_def ex_render_def)
  have c: "map_sum id (map r_table_subtype \<circ> results)
       (handler (Inr ex_store_table) ex_embed ex_load_ok ex_render ex_request)
       = Inr [None, None]"
    by code_simp
  show ?thesis
    using a b c
      enrichment_failure_not_fatal [of ex_load ex_table_chunk "Error ''ENOENT''" ex_render
        "enrichOptions ex_request" "Inr ex_store_table" ex_embed ex_request ex_load_ok ex_render]
      enrichment_failure_not_fatal [of ex_load_ok ex_table_chunk "Error ''TypeError''" ex_render
        "enrichOptions ex_request" "Inr ex_store_table" ex_embed ex_request ex_load ex_render]
    by simp
qed

section \<open>Section proximity\<close>

lemma or_null_eq: "or_null x = or_null y \<and> or_null x \<noteq> None \<longleftrightarrow> truthy y \<and> x = y"
  by (cases x; cases y) (auto simp: or_null_def truthy_def)

lemma take_min_length: "take (min n (length xs)) xs = take n xs"
  by (cases "n \<le> length xs") (simp_all add: min_def)

lemma or_null_None: "or_null x = None \<longleftrightarrow> \<not> truthy x"
  by (auto simp: or_null_def truthy_def split: option.splits)

lemma isNeighbor_iff:
  "or_null (doc_id c) \<noteq> None \<and> isNeighbor (anchorDocSectionMap cs scoredText) c
     \<longleftrightarrow> sharesAnchorSpec cs scoredText c"
proof -
  have "or_null (doc_id c) \<noteq> None \<and> isNeighbor (anchorDocSectionMap cs scoredText) c
     \<longleftrightarrow> (\<exists>a \<in> set (take 10 scoredText).
            or_null (doc_id (chunk_at cs (index a))) = or_null (doc_id c)
            \<and> or_null (doc_id (chunk_at cs (index a))) \<noteq> None
            \<and> (\<exists>key \<in> set (extractSectionKeys (or_empty (section_path (chunk_at cs (index a))))).
                  key \<in> set (extractSectionKeys (or_empty (section_path c)))))"
    unfolding isNeighbor_def anchorDocSectionMap_def anchors_def mkAnchor_def Let_def
      list_ex_iff take_min_length
    by (cases "or_null (doc_id c)") auto
  also have "\<dots> \<longleftrightarrow> sharesAnchorSpec cs scoredText c"
    unfolding sharesAnchorSpec_def using or_null_eq by (metis (no_types, lifting) disjoint_iff)
  finally show ?thesis .
qed

lemma proximityEntry_cases:
  "proximityEntry cs scoredText e =
     (if sharesAnchorSpec cs scoredText (chunk_at cs (index e))
      then e\<lparr>score := max (score e) (maxTextScore scoredText * 0.98)\<rparr> else e)"
  using isNeighbor_iff [of "chunk_at cs (index e)" cs scoredText]
  by (auto simp: proximityEntry_def Let_def)

lemma sorted_desc_hd:
  assumes "p \<in> set (sort_desc xs)"
  shows "score p \<le> maxTextScore (sort_desc xs)"
proof -
  have s: "sorted (map (\<lambda>e. - score e) (sort_desc xs))"
    by (simp add: sort_desc_def)
  obtain y ys where ys: "sort_desc xs = y # ys"
    using assms by (cases "sort_desc xs") auto
  have "- score y \<le> - score p"
    using s assms unfolding ys by auto
  then show ?thesis by (simp add: ys maxTextScore_def)
qed

text \<open>
  C4. After the section-proximity stage, with the prose candidates sorted by score, every
  table candidate that has a document id in common with one of the first ten prose
  candidates, and a section key in common with it, has a score of at least 0.98 times
  the score of every prose candidate, so of the highest one; a table candidate that
  shares no anchor is in the result with its previous score; and the stage neither
  drops nor adds a candidate.
\<close>

theorem section_proximity:
  "(\<forall>e' \<in> set (proximityBoost cs (sort_desc xs) tables).
      sharesAnchorSpec cs (sort_desc xs) (chunk_at cs (index e'))
        \<longrightarrow> (\<forall>p \<in> set xs. 0.98 * score p \<le> score e'))
   \<and> (\<forall>e \<in> set tables.
        \<not> sharesAnchorSpec cs (sort_desc xs) (chunk_at cs (index e))
          \<longrightarrow> e \<in> set (proximityBoost cs (sort_desc xs) tables))
   \<and> mset (map index (proximityBoost cs (sort_desc xs) tables)) = mset (map index tables)"
proof -
  let ?t = "sort_desc xs"
  have a: "0.98 * score p \<le> score e'"
    if e': "e' \<in> set (proximityBoost cs ?t tables)"
      and sh: "sharesAnchorSpec cs ?t (chunk_at cs (index e'))" and p: "p \<in> set xs" for e' p
  proof -
    obtain e where e: "e \<in> set tables" "e' = proximityEntry cs ?t e"
      using e' by (auto simp: proximityBoost_def set_sort_desc)
    have "index e' = index e" by (simp add: e index_proximityEntry)
    then have "score e' = max (score e) (maxTextScore ?t * 0.98)"
      using sh e by (simp add: proximityEntry_cases)
    moreover have "score p \<le> maxTextScore ?t"
      using p sorted_desc_hd [of p xs] by (simp add: set_sort_desc)
    ultimately show ?thesis by simp
  qed
  have b: "e \<in> set (proximityBoost cs ?t tables)"
    if "e \<in> set tables" "\<not> sharesAnchorSpec cs ?t (chunk_at cs (index e))" for e
  proof -
    have "proximityEntry cs ?t e = e" using that by (simp add: proximityEntry_cases)
    then show ?thesis using that(1) by (force simp: proximityBoost_def set_sort_desc)
  qed
  have c: "mset (map index (proximityBoost cs ?t tables)) = mset (map index tables)"
  proof -
    have "mset (proximityBoost cs ?t tables) = mset (map (proximityEntry cs ?t) tables)"
      by (simp add: proximityBoost_def sort_desc_def)
    then have "mset (map index (proximityBoost cs ?t tables))
                 = mset (map index (map (proximityEntry cs ?t) tables))"
      by (metis mset_map)
    then show ?thesis by (simp add: index_proximityEntry comp_def)
  qed
  show ?thesis using a b c by blast
qed

theorem section_proximity_witness:
  "proximityBoost ex_prox_chunks (sort_desc [\<lparr>index = 0, score = 4/5\<rparr>])
        [\<lparr>index = 1, score = 3/10\<rparr>, \<lparr>index = 2, score = 1/2\<rparr>]
      = [\<lparr>index = 1, score = 98/125\<rparr>, \<lparr>index = 2, score = 1/2\<rparr>]
   \<and> sharesAnchorSpec ex_prox_chunks (sort_desc [\<lparr>index = 0, score = 4/5\<rparr>])
         (chunk_at ex_prox_chunks 1)
   \<and> \<not> sharesAnchorSpec ex_prox_chunks (sort_desc [\<lparr>index = 0, score = 4/5\<rparr>])
         (chunk_at ex_prox_chunks 2)
   \<and> 0.98 * (4/5) \<le> (98/125 :: real)"
proof -
  have p: "proximityBoost ex_prox_chunks (sort_desc [\<lparr>index = 0, score = 4/5\<rparr>])
        [\<lparr>index = 1, score = 3/10\<rparr>, \<lparr>index = 2, score = 1/2\<rparr>]
      = [\<lparr>index = 1, score = 98/125\<rparr>, \<lparr>index = 2, score = 1/2\<rparr>]"
    by code_simp
  have s1: "sharesAnchorSpec ex_prox_chunks (sort_desc [\<lparr>index = 0, score = 4/5\<rparr>])
         (chunk_at ex_prox_chunks 1)"
    by code_simp
  have s2: "\<not> sharesAnchorSpec ex_prox_chunks (sort_desc [\<lparr>index = 0, score = 4/5\<rparr>])
         (chunk_at ex_prox_chunks 2)"
    by code_simp
  show ?thesis
    using p s1 s2
      section_proximity [of ex_prox_chunks "[\<lparr>index = 0, score = 4/5\<rparr>]"
        "[\<lparr>index = 1, score = 3/10\<rparr>, \<lparr>index = 2, score = 1/2\<rparr>]"]
    by simp
qed

section \<open>Guaranteed inclusion\<close>

lemma forceLoop_take_filter:
  "distinct (map index cands) \<Longrightarrow>
     forceLoop n cands combined
       = combined @ take n (filter (\<lambda>c. index c \<notin> index ` set combined) cands)"
proof (induction cands arbitrary: n combined)
  case Nil
  then show ?case by simp
next
  case (Cons c cs)
  have d: "distinct (map index cs)" and nc: "index c \<notin> index ` set cs"
    using Cons.prems by auto
  show ?case
  proof (cases "n = 0")
    case True
    then show ?thesis by simp
  next
    case n: False
    show ?thesis
    proof (cases "index c \<in> index ` set combined")
      case True
      then have "list_ex (\<lambda>e. index e = index c) combined"
        by (auto simp: list_ex_iff)
      then show ?thesis using n True Cons.IH [OF d, of n combined] by simp
    next
      case False
      then have nl: "\<not> list_ex (\<lambda>e. index e = index c) combined"
        unfolding list_ex_iff by (metis imageI)
      have "filter (\<lambda>x. index x \<notin> index ` set (combined @ [c])) cs
              = filter (\<lambda>x. index x \<notin> index ` set combined) cs"
      proof (rule filter_cong [OF refl])
        fix x assume "x \<in> set cs"
        then have "index x \<noteq> index c" using nc by (metis imageI)
        then show "(index x \<notin> index ` set (combined @ [c])) = (index x \<notin> index ` set combined)"
          by auto
      qed
      then have "forceLoop (n - 1) cs (combined @ [c])
                   = combined @ c # take (n - 1) (filter (\<lambda>x. index x \<notin> index ` set combined) cs)"
        using Cons.IH [OF d, of "n - 1" "combined @ [c]"] by simp
      then show ?thesis using n nl False by (cases n) simp_all
    qed
  qed
qed

lemma forceInclude_eq:
  assumes "distinct (map index scoredText)"
  shows "forceInclude p cs scoredText combined
           = sort_desc (combined @ take 2 (filter (\<lambda>e. p (chunk_at cs (index e))
                                                    \<and> index e \<notin> index ` set combined) scoredText))"
proof -
  have "distinct (map index (filter (\<lambda>e. p (chunk_at cs (index e))) scoredText))"
    using assms by (simp add: distinct_map_filter)
  then show ?thesis
    by (simp add: forceInclude_def forceLoop_take_filter)
qed

lemma distinct_index_sort_desc: "distinct (map index (sort_desc xs)) = distinct (map index xs)"
proof -
  have "mset (map index (sort_desc xs)) = mset (map index xs)"
    by (simp add: sort_desc_def)
  then show ?thesis by (rule mset_eq_imp_distinct_iff)
qed

lemma handler_scoredText_distinct:
  "distinct (map index (moduleBoosts b (chunks store)
      (scoreChannel qE (embeddings store) (textIndices (chunks store) (handlerIndices store req)))))"
proof -
  have "distinct (handlerIndices store req)"
    by (simp add: handlerIndices_def scopedIndices_def filterIndicesByScope_def)
  then have "distinct (textIndices (chunks store) (handlerIndices store req))"
    by (simp add: textIndices_def)
  then show ?thesis
    by (simp add: moduleBoosts_def scoreChannel_def distinct_index_sort_desc comp_def)
qed

text \<open>
  What the two guarantee blocks add, with the prose candidates at distinct indices (as
  the handler has them): the first two prose candidates, in score order and from the
  whole prose channel, whose chunk passes the filter of the block and whose index is not
  yet in the merged list. The Module-1 filter tests the 2024 edition; the Module-4 filter
  does not test the edition.
\<close>

lemma force_include_guarantee:
  assumes "distinct (map index scoredText)"
  shows "(isTreatmentScope sc \<and> isPediatric fl \<and> hasDrugResistanceIntent fl \<longrightarrow>
            forceIncludeModule4 sc fl cs scoredText combined
              = sort_desc (combined @ take 2
                  (filter (\<lambda>e. isModule4DrChunk (chunk_at cs (index e))
                                \<and> index e \<notin> index ` set combined) scoredText)))
         \<and> (isPreventionScope sc \<and> hasTptIntent fl \<longrightarrow>
            forceIncludeModule1 sc fl cs scoredText combined
              = sort_desc (combined @ take 2
                  (filter (\<lambda>e. isModule1TptChunk (chunk_at cs (index e))
                                \<and> index e \<notin> index ` set combined) scoredText)))
         \<and> (isModule1TptChunk c \<longrightarrow> isModule1Tpt2024 c)"
  using forceInclude_eq [OF assms]
  by (simp add: forceIncludeModule4_def forceIncludeModule1_def isModule1TptChunk_def
      isModule1Tpt2024_def)

text \<open>
  C5. The Module-4 block of the merge step adds a chunk that is not of the current
  edition: with the scope treatment, the pediatric and drug-resistance flags and 21
  prose candidates, the merged list holds the first 20, and the block adds the last one,
  a chunk of the 2022 edition of Module 4 (chapter on drug-resistant treatment). The
  Module-1 block and the authority boost of Module 4 test the year of the edition; the
  Module-4 block does not: a Module-1 TPT chunk of the 2020 edition is not added by the
  Module-1 block.
\<close>

theorem force_include_adds_old_edition:
  "\<not> list_ex (\<lambda>e. index e = 20) (mergeChannels ex_long_text [])
   \<and> list_ex (\<lambda>e. index e = 20)
       (forceIncludeModule4 (Some ''treatment'') ex_dr_flags ex_long_chunks ex_long_text
          (mergeChannels ex_long_text []))
   \<and> \<not> isModule4Treatment2025 (chunk_at ex_long_chunks 20)
   \<and> forceIncludeModule1 (Some ''prevention'') [''tpt''] [empty_chunk, ex_m1_2020]
         [\<lparr>index = 0, score = 9/10\<rparr>, \<lparr>index = 1, score = 2/5\<rparr>] [\<lparr>index = 0, score = 9/10\<rparr>]
       = [\<lparr>index = 0, score = 9/10\<rparr>]"
  by code_simp

section \<open>Stale-content penalty\<close>

lemma stalePenaltyTreatment_stored_subtype:
  assumes "isTreatmentScope sc" "isPediatric fl" "hasDrugResistanceIntent fl"
    and "hasModule4DrAnchor cs scoredText"
  shows "mset (stalePenaltyTreatment sc fl cs scoredText scoredTables)
           = mset (map (\<lambda>e. if isPedsRegimenTable (chunk_at cs (index e))
                               then e\<lparr>score := score e * 0.97\<rparr> else e) scoredTables)"
  using assms by (simp add: stalePenaltyTreatment_def penalize_def sort_desc_def)

lemma stalePenaltyPrevention_stored_subtype:
  assumes "isPreventionScope sc" "hasTptIntent fl" "hasModule1TptAnchor cs scoredText"
  shows "mset (stalePenaltyPrevention sc fl cs scoredText scoredTables)
           = mset (map (\<lambda>e. if isPedsTptTable (chunk_at cs (index e))
                               then e\<lparr>score := score e * 0.97\<rparr> else e) scoredTables)"
  using assms by (simp add: stalePenaltyPrevention_def penalize_def sort_desc_def)

text \<open>
  C2. The penalty loops read the subtype of a table from the \<open>table_subtype\<close> field of
  the stored chunk, which only the enrichment of the final results sets, on a copy. For
  a pediatric Module-5 table whose stored chunk has no such field and which
  \<open>detectTableSubtype\<close> classifies as a regimen table, with the scope treatment, the
  pediatric and drug-resistance flags and a Module-4 drug-resistant-treatment anchor, the
  score is left as it is; the same table with the subtype stored is penalised. The query
  ``Which regimen for a child with MDR-TB?'' over the two chunks returns the table with
  the subtype regimen and its score 0.5 unchanged.
\<close>

theorem stale_penalty_skips_detected_regimen_table:
  "hasModule4DrAnchor (chunks ex_dr_store) [\<lparr>index = 0, score = 9/10\<rparr>]
   \<and> detectTableSubtype ex_peds_table (snd (normalizeTableRows ex_regimen_rows))
         (fst (normalizeTableRows ex_regimen_rows)) = ''regimen''
   \<and> stalePenaltyTreatment (Some ''treatment'') ex_dr_flags (chunks ex_dr_store)
         [\<lparr>index = 0, score = 9/10\<rparr>] [\<lparr>index = 1, score = 1/2\<rparr>]
       = [\<lparr>index = 1, score = 1/2\<rparr>]
   \<and> stalePenaltyTreatment (Some ''treatment'') ex_dr_flags
         [ex_m4_2025, ex_peds_table\<lparr>table_subtype := Some ''regimen''\<rparr>]
         [\<lparr>index = 0, score = 9/10\<rparr>] [\<lparr>index = 1, score = 1/2\<rparr>]
       = [\<lparr>index = 1, score = 97/200\<rparr>]
   \<and> inferIntentFlags (or_empty (question ex_dr_request)) = ex_dr_flags
   \<and> resolvedScope ex_dr_request = Some ''treatment''
   \<and> result_summary (handler (Inr ex_dr_store) ex_embed ex_load_regimen ex_render_subtype
         ex_dr_request)
       = [(Some ''m4-dr'', None, 927/1000), (Some ''m5-t7'', Some ''regimen'', 1/2)]"
  by code_simp

section \<open>Dosing tables without weight bands\<close>

lemma join_nonempty: "x \<noteq> [] \<Longrightarrow> join sep (x # xs) \<noteq> []"
  by (cases xs) auto

lemma detect_dosing_caption:
  assumes "detectTableSubtype c rows hdr = ''dosing''"
    and "rows = [] \<or> getTableHeaders rows = []"
  shows "truthy (caption c)"
proof -
  have hd: "\<not> list_ex (\<lambda>h. includes_any h [''kg'', ''dose'', ''weight band'', ''weight-band''])
              (case rows of [] \<Rightarrow> [] | r # _ \<Rightarrow> map (toLowerCase \<circ> fst) r)"
  proof (cases rows)
    case Nil
    then show ?thesis by simp
  next
    case (Cons r rs)
    then have "getTableHeaders rows = []" using assms(2) by simp
    then have "\<forall>k \<in> set (map fst r). k = ''_row_index''"
      using Cons by (auto simp: getTableHeaders_def filter_empty_conv)
    moreover have "\<not> includes_any (toLowerCase ''_row_index'')
                      [''kg'', ''dose'', ''weight band'', ''weight-band'']"
      by code_simp
    ultimately show ?thesis using Cons by (auto simp: list_ex_iff)
  qed
  have "includes_any (toLowerCase (or_empty (caption c)))
          [''dose'', ''dosage'', ''dosing'', ''mg/kg'', ''mg/ day'', ''mg per kg'',
           ''weight band'', ''weight-band'']"
  proof (rule ccontr)
    assume n: "\<not> includes_any (toLowerCase (or_empty (caption c)))
          [''dose'', ''dosage'', ''dosing'', ''mg/kg'', ''mg/ day'', ''mg per kg'',
           ''weight band'', ''weight-band'']"
    have "detectTableSubtype c rows hdr \<noteq> ''dosing''"
      using n hd unfolding detectTableSubtype_def Let_def by simp
    then show False using assms(1) by simp
  qed
  then have "toLowerCase (or_empty (caption c)) \<noteq> []"
    by (auto simp: includes_any_def)
  then show ?thesis
    by (cases "caption c") (auto simp: truthy_def or_empty_def toLowerCase_def)
qed

text \<open>
  C9, as the code has it. For a table that \<open>detectTableSubtype\<close> classifies as a dosing
  table and that has no header matching the weight-band pattern, the text of
  \<open>renderDosingTable\<close> is the text of \<open>renderGenericTable\<close>, and it is not empty.
  When the table has a logical row and a header, the debug record is the generic one
  with the renderer set to dosing and the note of the fallback. When it has no logical
  row or no header, the text is the caption followed by ``. (No rows found.)'' and the
  debug record has the renderer dosing and no note.
\<close>

theorem dosing_fallback:
  assumes "detectTableSubtype c rows hdr = ''dosing''"
    and "\<not> list_ex weightBandLike (getTableHeaders rows)"
  shows "text_out (renderDosingTable c rows hdr) = text_out (renderGenericTable c rows hdr)
         \<and> text_out (renderDosingTable c rows hdr) \<noteq> []
         \<and> (rows \<noteq> [] \<and> getTableHeaders rows \<noteq> [] \<longrightarrow>
              debug_out (renderDosingTable c rows hdr)
                = (debug_out (renderGenericTable c rows hdr))
                    \<lparr>renderer := Some ''dosing'',
                     dbg_note := Some ''fallback_generic_no_weight_bands''\<rparr>)
         \<and> (rows = [] \<or> getTableHeaders rows = [] \<longrightarrow>
              text_out (renderDosingTable c rows hdr)
                = or_empty (caption c) @ ''. (No rows found.)''
              \<and> debug_out (renderDosingTable c rows hdr)
                = \<lparr>renderer = Some ''dosing'', header_keys = getTableHeaders rows,
                     row_count = length rows, dbg_note = None, med_key = None,
                     weight_band_keys = None\<rparr>)"
proof -
  have wb: "filter weightBandLike (getTableHeaders rows) = []"
    using assms(2) by (simp add: list_ex_iff filter_empty_conv)
  show ?thesis
  proof (cases "rows = [] \<or> getTableHeaders rows = []")
    case True
    then have "truthy (caption c)" using assms(1) detect_dosing_caption by blast
    then show ?thesis using True
      by (auto simp: renderDosingTable_def renderGenericTable_def Let_def)
  next
    case False
    then show ?thesis using wb
      by (simp add: renderDosingTable_def renderGenericTable_def Let_def join_nonempty)
  qed
qed

theorem dosing_fallback_witness:
  "detectTableSubtype ex_dosing_chunk ex_dose_rows None = ''dosing''
   \<and> \<not> list_ex weightBandLike (getTableHeaders ex_dose_rows)
   \<and> getTableHeaders ex_dose_rows = [''Medicine'', ''Daily dose'']
   \<and> text_out (renderDosingTable ex_dosing_chunk ex_dose_rows None)
       = text_out (renderGenericTable ex_dosing_chunk ex_dose_rows None)
   \<and> dbg_note (debug_out (renderDosingTable ex_dosing_chunk ex_dose_rows None))
       = Some ''fallback_generic_no_weight_bands''
   \<and> detectTableSubtype ex_dosing_chunk ex_no_header_rows None = ''dosing''
   \<and> getTableHeaders ex_no_header_rows = []
   \<and> text_out (renderDosingTable ex_dosing_chunk ex_no_header_rows None)
       = ''Dosing of first-line medicines. (No rows found.)''
   \<and> dbg_note (debug_out (renderDosingTable ex_dosing_chunk ex_no_header_rows None)) = None
   \<and> row_count (debug_out (renderDosingTable ex_dosing_chunk ex_no_header_rows None)) = 2"
proof -
  have a: "detectTableSubtype ex_dosing_chunk ex_dose_rows None = ''dosing''"
    by code_simp
  have b: "\<not> list_ex weightBandLike (getTableHeaders ex_dose_rows)"
    by code_simp
  have c: "getTableHeaders ex_dose_rows = [''Medicine'', ''Daily dose'']"
    by code_simp
  have d: "ex_dose_rows \<noteq> []"
    by (simp add: ex_dose_rows_def)
  have a': "detectTableSubtype ex_dosing_chunk ex_no_header_rows None = ''dosing''"
    by code_simp
  have c': "getTableHeaders ex_no_header_rows = []"
    by code_simp
  have b': "\<not> list_ex weightBandLike (getTableHeaders ex_no_header_rows)"
    by (simp add: c')
  have e: "or_empty (caption ex_dosing_chunk) = ''Dosing of first-line medicines''
           \<and> length ex_no_header_rows = 2"
    by (simp add: ex_dosing_chunk_def ex_no_header_rows_def or_empty_def)
  have w1: "text_out (renderDosingTable ex_dosing_chunk ex_dose_rows None)
              = text_out (renderGenericTable ex_dosing_chunk ex_dose_rows None)
            \<and> dbg_note (debug_out (renderDosingTable ex_dosing_chunk ex_dose_rows None))
              = Some ''fallback_generic_no_weight_bands''"
    using c d dosing_fallback [OF a b] by simp
  have w2: "text_out (renderDosingTable ex_dosing_chunk ex_no_header_rows None)
              = ''Dosing of first-line medicines. (No rows found.)''
            \<and> dbg_note (debug_out (renderDosingTable ex_dosing_chunk ex_no_header_rows None)) = None
            \<and> row_count (debug_out (renderDosingTable ex_dosing_chunk ex_no_header_rows None)) = 2"
    using c' e dosing_fallback [OF a' b', THEN conjunct2, THEN conjunct2, THEN conjunct2]
    by simp
  show ?thesis
    using a b c a' c' w1 w2 by blast
qed

text \<open>
  The claim as stated fails for a table with no logical row and for one with no header:
  a table classified as a dosing table by its caption, whose attachment holds the header
  row only, or whose logical rows have no header, is rendered by the early return of
  \<open>renderDosingTable\<close>, which records no fallback note.
\<close>

theorem dosing_fallback_counterexample:
  "normalizeTableRows ex_header_only_rows = (Some (hd ex_header_only_rows), [])
   \<and> detectTableSubtype ex_dosing_chunk [] (Some (hd ex_header_only_rows)) = ''dosing''
   \<and> \<not> list_ex weightBandLike (getTableHeaders [])
   \<and> dbg_note (debug_out (renderDosingTable ex_dosing_chunk []
         (Some (hd ex_header_only_rows)))) = None
   \<and> detectTableSubtype ex_dosing_chunk ex_no_header_rows None = ''dosing''
   \<and> \<not> list_ex weightBandLike (getTableHeaders ex_no_header_rows)
   \<and> dbg_note (debug_out (renderDosingTable ex_dosing_chunk ex_no_header_rows None)) = None"
  by code_simp

end
